theory Spec2Isabelle
  imports Main "HOL-Library.Sublist"
begin

section \<open>Python values and exceptions\<close>

text \<open>
  The module under verification is \<^verbatim>\<open>mesonbuild/modules/cmake.py\<close>. Its functions
  take dynamically typed keyword arguments, raise exceptions, read and write files and
  run external programs. Values are a datatype, an exception is the \<open>Inl\<close> of a sum,
  and the file system is an explicit state.
\<close>

text \<open>\<^verbatim>\<open>mesonlib.File\<close>: the three fields its constructor stores.\<close>

record File =
  is_built :: bool
  subdir :: string
  fname :: string

text \<open>
  The configuration mapping held by a \<^verbatim>\<open>ConfigurationDataHolder\<close>: a dict from
  a name to the pair (value, description).
\<close>

type_synonym confdata = "string \<rightharpoonup> (string \<times> string)"

record conf_holder =
  conf_values :: confdata
  used :: bool

text \<open>
  The values a build file can pass. \<open>PObj\<close> is an object of any other class; it
  carries an identifier only.
\<close>

datatype pyval =
    PNone
  | PStr string
  | PInt int
  | PList "pyval list"
  | PFile File
  | PConf conf_holder
  | PObj string

type_synonym kwargs = "string \<rightharpoonup> pyval"

text \<open>
  The exceptions the module raises or lets through. \<open>External\<close> is an exception of
  a collaborator that is not part of this file.
\<close>

datatype error =
    MesonException string
  | InterpreterException string
  | UnboundLocalError string
  | TypeError string
  | ValueError string
  | AssertionError
  | OSError string
  | External string

section \<open>Strings\<close>

text \<open>\<^verbatim>\<open>str(n)\<close> for an integer: its decimal digits, with a sign.\<close>

fun digits :: "nat \<Rightarrow> string" where
  "digits n =
     (if n < 10 then [char_of (48 + n)]
      else digits (n div 10) @ [char_of (48 + n mod 10)])"

definition str_int :: "int \<Rightarrow> string" where
  "str_int i = (if i < 0 then CHR ''-'' # digits (nat (- i)) else digits (nat i))"

text \<open>
  \<^verbatim>\<open>str(v)\<close>, which \<^verbatim>\<open>'{}'.format(v)\<close> inserts: a string is itself, an integer
  its digits. What Python prints for the other values is given by \<open>other\<close>.
\<close>

definition py_str :: "(pyval \<Rightarrow> string) \<Rightarrow> pyval \<Rightarrow> string" where
  "py_str other v = (case v of PStr s \<Rightarrow> s | PInt i \<Rightarrow> str_int i | _ \<Rightarrow> other v)"

text \<open>\<^verbatim>\<open>needle in haystack\<close> on strings.\<close>

fun contains :: "string \<Rightarrow> string \<Rightarrow> bool" where
  "contains needle [] = (needle = [])"
| "contains needle (c # cs) = (prefix needle (c # cs) \<or> contains needle cs)"

text \<open>
  \<^verbatim>\<open>s.replace(old, new)\<close>: every occurrence of \<open>old\<close>, found from the left and
  not overlapping, becomes \<open>new\<close>. (With an empty \<open>old\<close> Python inserts \<open>new\<close>
  before every character and at the end.)
\<close>

fun str_replace :: "string \<Rightarrow> string \<Rightarrow> string \<Rightarrow> string" where
  "str_replace [] old new = (if old = [] then new else [])"
| "str_replace (c # cs) old new =
     (if old = [] then new @ c # str_replace cs old new
      else if prefix old (c # cs) then new @ str_replace (drop (length old - 1) cs) old new
      else c # str_replace cs old new)"

text \<open>\<^verbatim>\<open>s.split(sep)\<close> for a separator of one character.\<close>

fun split_on :: "char \<Rightarrow> string \<Rightarrow> string list" where
  "split_on sep [] = [[]]"
| "split_on sep (c # cs) =
     (if c = sep then [] # split_on sep cs
      else (case split_on sep cs of [] \<Rightarrow> [[c]] | x # xs \<Rightarrow> (c # x) # xs))"

text \<open>\<^verbatim>\<open>sep.join(xs)\<close>.\<close>

fun join_str :: "string \<Rightarrow> string list \<Rightarrow> string" where
  "join_str sep [] = []"
| "join_str sep [x] = x"
| "join_str sep (x # y # ys) = x @ sep @ join_str sep (y # ys)"

text \<open>
  \<^verbatim>\<open>s.strip()\<close>: the white space of ASCII (tab, line feed, vertical tab, form feed,
  carriage return, the four separators 28 to 31 and the space) goes from both ends.
\<close>

definition is_space :: "char \<Rightarrow> bool" where
  "is_space c = (c \<in> set [CHR 0x09, CHR 0x0A, CHR 0x0B, CHR 0x0C, CHR 0x0D,
                           CHR 0x1C, CHR 0x1D, CHR 0x1E, CHR 0x1F, CHR 0x20])"

definition strip :: "string \<Rightarrow> string" where
  "strip s = rev (dropWhile is_space (rev (dropWhile is_space s)))"

text \<open>
  Reading a file opened with \<^verbatim>\<open>open(path, "r")\<close>: \<^verbatim>\<open>\r\n\<close> and a lone \<^verbatim>\<open>\r\<close>
  arrive as \<^verbatim>\<open>\n\<close> (the flag says that the character before was a \<^verbatim>\<open>\r\<close>), and
  \<^verbatim>\<open>readlines()\<close> cuts after every \<^verbatim>\<open>\n\<close>, which stays on its line.
\<close>

fun newlines_from :: "bool \<Rightarrow> string \<Rightarrow> string" where
  "newlines_from after_cr [] = []"
| "newlines_from after_cr (c # cs) =
     (if c = CHR 0x0D then CHR 0x0A # newlines_from True cs
      else if c = CHR 0x0A \<and> after_cr then newlines_from False cs
      else c # newlines_from False cs)"

definition universal_newlines :: "string \<Rightarrow> string" where
  "universal_newlines s = newlines_from False s"

fun readlines :: "string \<Rightarrow> string list" where
  "readlines [] = []"
| "readlines (c # cs) =
     (if c = CHR 0x0A then [c] # readlines cs
      else (case readlines cs of [] \<Rightarrow> [[c]] | l # ls \<Rightarrow> (c # l) # ls))"

section \<open>Paths\<close>

text \<open>
  The functions of \<^verbatim>\<open>os.path\<close> the module calls, as \<^verbatim>\<open>posixpath\<close> defines them
  (the separator is \<^verbatim>\<open>/\<close>).
\<close>

definition isabs :: "string \<Rightarrow> bool" where
  "isabs s = prefix ''/'' s"

text \<open>One step of \<^verbatim>\<open>os.path.join\<close>, and the whole of it: \<^verbatim>\<open>join(a, *p)\<close>.\<close>

definition join2 :: "string \<Rightarrow> string \<Rightarrow> string" where
  "join2 path b =
     (if prefix ''/'' b then b
      else if path = [] \<or> last path = CHR ''/'' then path @ b
      else path @ ''/'' @ b)"

definition join :: "string \<Rightarrow> string list \<Rightarrow> string" where
  "join a p = foldl join2 a p"

text \<open>
  \<^verbatim>\<open>os.path.normpath\<close>. \<open>norm_comps\<close> is its loop over the components: \<open>init\<close> says
  that the path starts with a slash, \<open>new\<close> is \<^verbatim>\<open>new_comps\<close>.
\<close>

fun norm_comps :: "bool \<Rightarrow> string list \<Rightarrow> string list \<Rightarrow> string list" where
  "norm_comps init new [] = new"
| "norm_comps init new (part # comps) =
     (if part = [] \<or> part = ''.'' then norm_comps init new comps
      else if part \<noteq> ''..'' \<or> (\<not> init \<and> new = []) \<or> (new \<noteq> [] \<and> last new = ''..'')
        then norm_comps init (new @ [part]) comps
      else if new \<noteq> [] then norm_comps init (butlast new) comps
      else norm_comps init new comps)"

definition initial_slashes :: "string \<Rightarrow> nat" where
  "initial_slashes path =
     (if prefix ''/'' path then (if prefix ''//'' path \<and> \<not> prefix ''///'' path then 2 else 1)
      else 0)"

definition normpath :: "string \<Rightarrow> string" where
  "normpath path =
     (if path = [] then ''.''
      else
        let comps = norm_comps (initial_slashes path \<noteq> 0) [] (split_on CHR ''/'' path);
            p = replicate (initial_slashes path) CHR ''/'' @ join_str ''/'' comps
        in if p = [] then ''.'' else p)"

text \<open>\<^verbatim>\<open>os.path.abspath\<close>; \<open>cwd\<close> is what \<^verbatim>\<open>os.getcwd()\<close> returns.\<close>

definition abspath :: "string \<Rightarrow> string \<Rightarrow> string" where
  "abspath cwd path = normpath (if isabs path then path else join2 cwd path)"

text \<open>The components \<^verbatim>\<open>relpath\<close> compares: \<^verbatim>\<open>[x for x in abspath(p).split(sep) if x]\<close>.\<close>

definition path_list :: "string \<Rightarrow> string \<Rightarrow> string list" where
  "path_list cwd p = filter (\<lambda>x. x \<noteq> []) (split_on CHR ''/'' (abspath cwd p))"

text \<open>
  \<^verbatim>\<open>os.path.relpath(path, start)\<close>. \<^verbatim>\<open>commonprefix\<close> of two lists is their longest
  common prefix.
\<close>

definition relpath :: "string \<Rightarrow> string \<Rightarrow> string \<Rightarrow> error + string" where
  "relpath cwd path start =
     (if path = [] then Inl (ValueError ''no path specified'')
      else
        let start_list = path_list cwd start;
            plist = path_list cwd path;
            i = length (longest_common_prefix start_list plist);
            rel_list = replicate (length start_list - i) ''..'' @ drop i plist
        in case rel_list of [] \<Rightarrow> Inr ''.'' | a # p \<Rightarrow> Inr (join a p))"

text \<open>\<^verbatim>\<open>os.path.split\<close>: the head up to the last slash, and the tail after it.\<close>

definition path_split :: "string \<Rightarrow> string \<times> string" where
  "path_split p =
     (let i = length p - length (takeWhile (\<lambda>c. c \<noteq> CHR ''/'') (rev p));
          head = take i p;
          tail = drop i p
      in (if head \<noteq> [] \<and> head \<noteq> replicate (length head) CHR ''/''
          then rev (dropWhile (\<lambda>c. c = CHR ''/'') (rev head)) else head,
          tail))"

text \<open>
  \<^verbatim>\<open>pathlib.PurePath(s).parts\<close> on POSIX: the root (\<^verbatim>\<open>//\<close> for exactly two leading
  slashes, \<^verbatim>\<open>/\<close> for any other number), then the components that are neither empty
  nor \<^verbatim>\<open>.\<close>.
\<close>

definition purepath_parts :: "string \<Rightarrow> string list" where
  "purepath_parts s =
     (let n = length (takeWhile (\<lambda>c. c = CHR ''/'') s);
          root = (if n = 0 then [] else if n = 2 then [''//''] else [''/''])
      in root @ filter (\<lambda>x. x \<noteq> [] \<and> x \<noteq> ''.'') (split_on CHR ''/'' (drop n s)))"

section \<open>Regular expressions\<close>

text \<open>
  The three patterns of the module, as syntax trees, and a matcher that tries the
  alternatives in the order a backtracking matcher does: \<open>rmatch r s\<close> lists the
  lengths of the prefixes of \<open>s\<close> that \<open>r\<close> matches, the first tried first. A
  capturing group matches what its body matches, so it needs no constructor;
  \<^verbatim>\<open>(?=r)\<close> is \<open>Ahead r\<close>. The module's patterns have no operand of \<^verbatim>\<open>+\<close> that
  matches the empty string.
\<close>

datatype regex =
    Eps
  | Chr char
  | Cls "char \<Rightarrow> bool"
  | Seq regex regex
  | Alt regex regex
  | Plus regex
  | Opt regex
  | Ahead regex

fun rmatch :: "regex \<Rightarrow> string \<Rightarrow> nat list" where
  "rmatch Eps s = [0]"
| "rmatch (Chr c) s = (case s of [] \<Rightarrow> [] | x # _ \<Rightarrow> if x = c then [1] else [])"
| "rmatch (Cls p) s = (case s of [] \<Rightarrow> [] | x # _ \<Rightarrow> if p x then [1] else [])"
| "rmatch (Seq r1 r2) s =
     concat (map (\<lambda>n. map (\<lambda>m. n + m) (rmatch r2 (drop n s))) (rmatch r1 s))"
| "rmatch (Alt r1 r2) s = rmatch r1 s @ rmatch r2 s"
| "rmatch (Opt r) s = rmatch r s @ [0]"
| "rmatch (Ahead r) s = (if rmatch r s = [] then [] else [0])"
| "rmatch (Plus r) s =
     concat (map (\<lambda>n. (if 0 < n \<and> n \<le> length s
                         then map (\<lambda>m. n + m) (rmatch (Plus r) (drop n s)) else []) @ [n])
                 (rmatch r s))"

text \<open>A literal string, character by character.\<close>

fun lit :: "string \<Rightarrow> regex" where
  "lit [] = Eps"
| "lit [c] = Chr c"
| "lit (c # d # cs) = Seq (Chr c) (lit (d # cs))"

text \<open>\<^verbatim>\<open>re.match\<close>: the length of the match at the start of the string, if there is one.\<close>

definition re_match :: "regex \<Rightarrow> string \<Rightarrow> nat option" where
  "re_match r s = (case rmatch r s of [] \<Rightarrow> None | n # _ \<Rightarrow> Some n)"

text \<open>\<^verbatim>\<open>re.search\<close>: where the leftmost match starts, and its length.\<close>

fun re_search :: "regex \<Rightarrow> string \<Rightarrow> (nat \<times> nat) option" where
  "re_search r [] = map_option (Pair 0) (re_match r [])"
| "re_search r (c # cs) =
     (case re_match r (c # cs) of
        Some n \<Rightarrow> Some (0, n)
      | None \<Rightarrow> map_option (\<lambda>(i, n). (Suc i, n)) (re_search r cs))"

text \<open>
  The scan of \<^verbatim>\<open>re.sub\<close>: from the left, a match becomes one piece and the scan goes
  on behind it; where nothing matches, the character is a piece of its own.
\<close>

datatype piece = Lit char | Match string

fun scan :: "regex \<Rightarrow> string \<Rightarrow> piece list" where
  "scan r [] = (case re_match r [] of None \<Rightarrow> [] | Some _ \<Rightarrow> [Match []])"
| "scan r (c # cs) =
     (case re_match r (c # cs) of
        None \<Rightarrow> Lit c # scan r cs
      | Some n \<Rightarrow>
          if n = 0 then Match [] # Lit c # scan r cs
          else Match (take n (c # cs)) # scan r (drop (n - 1) cs))"

text \<open>\<^verbatim>\<open>re.sub(regex, callback, line)\<close>.\<close>

definition re_sub :: "regex \<Rightarrow> (string \<Rightarrow> string) \<Rightarrow> string \<Rightarrow> string" where
  "re_sub r f s = concat (map (\<lambda>p. case p of Lit c \<Rightarrow> [c] | Match m \<Rightarrow> f m) (scan r s))"

text \<open>
  Line 206: \<^verbatim>\<open>r'(?:\\\\)+(?=\\?@)|\\@|@([-a-zA-Z0-9_]+)@'\<close>. In the raw string
  two backslashes are the pattern of one backslash.
\<close>

definition name_char :: "char \<Rightarrow> bool" where
  "name_char c =
     (c \<in> set ''-abcdefghijklmnopqrstuvwxyzABCDEFGHIJKLMNOPQRSTUVWXYZ0123456789_'')"

definition placeholder_regex :: regex where
  "placeholder_regex =
     Alt (Seq (Plus (Seq (Chr (CHR 0x5C)) (Chr (CHR 0x5C))))
              (Ahead (Seq (Opt (Chr (CHR 0x5C))) (Chr CHR ''@''))))
    (Alt (Seq (Chr (CHR 0x5C)) (Chr CHR ''@''))
         (Seq (Chr CHR ''@'') (Seq (Plus (Cls name_char)) (Chr CHR ''@''))))"

text \<open>
  Line 265: \<^verbatim>\<open>'^(/usr)?/lib(64)?/.+'\<close>, used with \<^verbatim>\<open>re.match\<close>, which matches at the
  start of the string, where \<^verbatim>\<open>^\<close> holds. The dot is any character but the line feed.
\<close>

definition lib_regex :: regex where
  "lib_regex =
     Seq (Opt (lit ''/usr''))
    (Seq (lit ''/lib'')
    (Seq (Opt (lit ''64''))
    (Seq (Chr CHR ''/'') (Plus (Cls (\<lambda>c. c \<noteq> CHR 0x0A))))))"

text \<open>
  Line 143: \<^verbatim>\<open>'\nCMAKE_ROOT \\"([^"]+)"\n'\<close>, a string that is not raw: \<^verbatim>\<open>\n\<close> is
  the line feed and \<^verbatim>\<open>\\"\<close> the pattern of a double quote. The group starts 13
  characters into the match and ends 2 before its end.
\<close>

definition cmake_root_regex :: regex where
  "cmake_root_regex =
     Seq (lit ''\<newline>CMAKE_ROOT \"'')
    (Seq (Plus (Cls (\<lambda>c. c \<noteq> CHR 0x22)))
         (lit ''\"\<newline>''))"

section \<open>The file system and the external programs\<close>

text \<open>
  A file has a content and permission bits. The world outside the interpreter is a
  record: the files that exist, which paths can be opened for writing, the mode a
  newly created file gets, the current directory, the text of the operating system's
  error for a path, and two counters of what has been run so far: the CMake binary
  and the compiler's \<^verbatim>\<open>sizeof\<close> check. \<open>logged\<close> collects the lines given to
  \<^verbatim>\<open>mlog.log\<close>.
\<close>

record fnode =
  content :: string
  mode :: nat

record world =
  files :: "string \<rightharpoonup> fnode"
  writable :: "string \<Rightarrow> bool"
  new_mode :: nat
  cwd :: string
  os_error :: "string \<Rightarrow> string"
  cmake_runs :: nat
  sizeof_runs :: nat
  logged :: "string list"

text \<open>\<^verbatim>\<open>os.path.exists\<close>.\<close>

definition exists_path :: "world \<Rightarrow> string \<Rightarrow> bool" where
  "exists_path w p = (files w p \<noteq> None)"

text \<open>
  \<^verbatim>\<open>with open(infile, "r") as fin: data = fin.readlines()\<close>; a file that does not
  exist raises, with the text of the operating system.
\<close>

definition read_lines :: "world \<Rightarrow> string \<Rightarrow> string + string list" where
  "read_lines w p =
     (case files w p of
        None \<Rightarrow> Inl (os_error w p)
      | Some f \<Rightarrow> Inr (readlines (universal_newlines (content f))))"

text \<open>
  \<^verbatim>\<open>open(path, "w")\<close>: the file is created with the mode of new files, or emptied when
  it exists, keeping its mode.
\<close>

definition open_w :: "world \<Rightarrow> string \<Rightarrow> error + world" where
  "open_w w p =
     (if writable w p then
        Inr (w\<lparr>files := (files w)(p \<mapsto>
               \<lparr>content = [], mode = (case files w p of None \<Rightarrow> new_mode w | Some f \<Rightarrow> mode f)\<rparr>)\<rparr>)
      else Inl (OSError (os_error w p)))"

text \<open>Writing one more string to the open file.\<close>

definition append_file :: "world \<Rightarrow> string \<Rightarrow> string \<Rightarrow> world" where
  "append_file w p s =
     (case files w p of
        None \<Rightarrow> w
      | Some f \<Rightarrow> w\<lparr>files := (files w)(p \<mapsto> f\<lparr>content := content f @ s\<rparr>)\<rparr>)"

text \<open>
  \<^verbatim>\<open>fout.writelines(result)\<close>, line by line: the worlds after each line, so that a
  file written half is one of them.
\<close>

fun write_states :: "world \<Rightarrow> string \<Rightarrow> string list \<Rightarrow> world list" where
  "write_states w p [] = []"
| "write_states w p (l # ls) = append_file w p l # write_states (append_file w p l) p ls"

text \<open>\<^verbatim>\<open>shutil.copymode(src, dst)\<close>: the permission bits of \<open>src\<close> go onto \<open>dst\<close>.\<close>

definition copymode :: "world \<Rightarrow> string \<Rightarrow> string \<Rightarrow> error + world" where
  "copymode w src dst =
     (case files w src of
        None \<Rightarrow> Inl (OSError (os_error w src))
      | Some f \<Rightarrow>
          (case files w dst of
             None \<Rightarrow> Inl (OSError (os_error w dst))
           | Some g \<Rightarrow> Inr (w\<lparr>files := (files w)(dst \<mapsto> g\<lparr>mode := mode f\<rparr>)\<rparr>)))"

text \<open>
  Modelled from the spec: \<^verbatim>\<open>mesonlib.replace_if_different(dst, dst_tmp)\<close> is not in
  this file. The spec has it "atomically replace the destination path with the
  temporary path": in one step the destination becomes the temporary file and the
  temporary path is gone.
\<close>

definition replace_if_different :: "string \<Rightarrow> string \<Rightarrow> world \<Rightarrow> world" where
  "replace_if_different dst dst_tmp w =
     w\<lparr>files := (files w)(dst := files w dst_tmp, dst_tmp := None)\<rparr>"

text \<open>
  The host compilers: \<^verbatim>\<open>compiler.sizeof('void *', '', env)\<close> returns an integer or
  raises. The build's environment: its directories, the built-in options
  \<^verbatim>\<open>libdir\<close> and \<^verbatim>\<open>prefix\<close>, and \<^verbatim>\<open>coredata.compilers.host\<close>.
\<close>

record compiler =
  sizeof_void_p :: "error + int"

record environment =
  source_dir :: string
  build_dir :: string
  scratch_dir :: string
  opt_libdir :: string
  opt_prefix :: string
  compilers_host :: "string \<rightharpoonup> compiler"

text \<open>The \<^verbatim>\<open>state\<close> a module method gets: the environment and the current subdirectory.\<close>

record mstate =
  env :: environment
  cur_subdir :: string

text \<open>\<^verbatim>\<open>build.Data\<close>, \<^verbatim>\<open>ModuleReturnValue\<close>, and what the methods touch of the interpreter.\<close>

record Data =
  sources :: "File list"
  install_dir :: string

record ModuleReturnValue =
  return_value :: Data
  new_objects :: "Data list"

record interpreter =
  build_def_files :: "string list"
  build_data :: "Data list"

text \<open>
  What the module calls in other files, taken as given: running
  \<^verbatim>\<open>cmake --system-information -G Ninja\<close> (\<^verbatim>\<open>ExternalProgram\<close> and
  \<^verbatim>\<open>Popen_safe\<close>; the argument counts the earlier runs, the result is the return code,
  stdout and stderr, or an exception), \<^verbatim>\<open>str()\<close> of a value that is neither a string
  nor an integer, three methods of \<^verbatim>\<open>mesonlib.File\<close>, and \<^verbatim>\<open>mesonlib.do_conf_file\<close>.
\<close>

record externals =
  run_cmake :: "nat \<Rightarrow> error + (int \<times> string \<times> string)"
  str_of :: "pyval \<Rightarrow> string"
  from_source_file :: "world \<Rightarrow> string \<Rightarrow> string \<Rightarrow> string \<Rightarrow> error + File"
  absolute_path :: "File \<Rightarrow> string \<Rightarrow> string \<Rightarrow> string"
  relative_name :: "File \<Rightarrow> string"
  do_conf_file :: "string \<Rightarrow> string \<Rightarrow> confdata \<Rightarrow> world \<Rightarrow> error option \<times> world"

section \<open>The module's constants\<close>

definition COMPATIBILITIES :: "string list" where
  "COMPATIBILITIES = [''AnyNewerVersion'', ''SameMajorVersion'', ''SameMinorVersion'', ''ExactVersion'']"

text \<open>
  The three blocks of text of lines 28 to 55, line by line. The source writes them in
  strings that are not raw, where two backslashes are one backslash of the text: the
  first block holds the token \<^verbatim>\<open>@PACKAGE_INIT@\<close> with a backslash before each of
  its two \<^verbatim>\<open>@\<close>.
\<close>

definition PACKAGE_INIT_BASE :: string where
  "PACKAGE_INIT_BASE =
     ''\<newline>''
   @ ''####### Expanded from '' @ [CHR 0x5C] @ ''@PACKAGE_INIT'' @ [CHR 0x5C] @ ''@ by configure_package_config_file() #######\<newline>''
   @ ''####### Any changes to this file will be overwritten by the next CMake run ####\<newline>''
   @ ''####### The input file was @inputFileName@ ########\<newline>''
   @ ''\<newline>''
   @ ''get_filename_component(PACKAGE_PREFIX_DIR \"${CMAKE_CURRENT_LIST_DIR}/@PACKAGE_RELATIVE_PATH@\" ABSOLUTE)\<newline>''"

definition PACKAGE_INIT_EXT :: string where
  "PACKAGE_INIT_EXT =
     ''\<newline>''
   @ ''# Use original install prefix when loaded through a \"/usr move\"\<newline>''
   @ ''# cross-prefix symbolic link such as /lib -> /usr/lib.\<newline>''
   @ ''get_filename_component(_realCurr \"${CMAKE_CURRENT_LIST_DIR}\" REALPATH)\<newline>''
   @ ''get_filename_component(_realOrig \"@absInstallDir@\" REALPATH)\<newline>''
   @ ''if(_realCurr STREQUAL _realOrig)\<newline>''
   @ ''  set(PACKAGE_PREFIX_DIR \"@installPrefix@\")\<newline>''
   @ ''endif()\<newline>''
   @ ''unset(_realOrig)\<newline>''
   @ ''unset(_realCurr)\<newline>''"

definition PACKAGE_INIT_SET_AND_CHECK :: string where
  "PACKAGE_INIT_SET_AND_CHECK =
     ''\<newline>''
   @ ''macro(set_and_check _var _file)\<newline>''
   @ ''  set(${_var} \"${_file}\")\<newline>''
   @ ''  if(NOT EXISTS \"${_file}\")\<newline>''
   @ ''    message(FATAL_ERROR \"File or directory ${_file} referenced by variable ${_var} does not exist !\")\<newline>''
   @ ''  endif()\<newline>''
   @ ''endmacro()\<newline>''
   @ ''\<newline>''
   @ ''####################################################################################\<newline>''"

text \<open>
  The text of \<open>PACKAGE_INIT_BASE\<close> around its escaped token and its two placeholders:
  before the token, between the token and \<^verbatim>\<open>@inputFileName@\<close>, between that and
  \<^verbatim>\<open>@PACKAGE_RELATIVE_PATH@\<close>, and behind it.
\<close>

definition init_head :: string where
  "init_head =
     ''\<newline>''
   @ ''####### Expanded from ''"

definition init_by :: string where
  "init_by =
     '' by configure_package_config_file() #######\<newline>''
   @ ''####### Any changes to this file will be overwritten by the next CMake run ####\<newline>''
   @ ''####### The input file was ''"

definition init_mid :: string where
  "init_mid =
     '' ########\<newline>''
   @ ''\<newline>''
   @ ''get_filename_component(PACKAGE_PREFIX_DIR \"${CMAKE_CURRENT_LIST_DIR}/''"

definition init_tail :: string where
  "init_tail = ''\" ABSOLUTE)\<newline>''"

text \<open>The text of \<open>PACKAGE_INIT_EXT\<close> around its two placeholders.\<close>

definition ext_head :: string where
  "ext_head =
     ''\<newline>''
   @ ''# Use original install prefix when loaded through a \"/usr move\"\<newline>''
   @ ''# cross-prefix symbolic link such as /lib -> /usr/lib.\<newline>''
   @ ''get_filename_component(_realCurr \"${CMAKE_CURRENT_LIST_DIR}\" REALPATH)\<newline>''
   @ ''get_filename_component(_realOrig \"''"

definition ext_mid :: string where
  "ext_mid =
     ''\" REALPATH)\<newline>''
   @ ''if(_realCurr STREQUAL _realOrig)\<newline>''
   @ ''  set(PACKAGE_PREFIX_DIR \"''"

definition ext_tail :: string where
  "ext_tail =
     ''\")\<newline>''
   @ ''endif()\<newline>''
   @ ''unset(_realOrig)\<newline>''
   @ ''unset(_realCurr)\<newline>''"

section \<open>The subproject bridge\<close>

text \<open>
  What \<^verbatim>\<open>CMakeSubprojectHolder\<close> uses of the subproject it wraps:
  \<^verbatim>\<open>held_object.cm_interpreter.target_info\<close>, \<^verbatim>\<open>cm_interpreter.target_list\<close> and
  \<^verbatim>\<open>held_object.get_variable_method\<close>. They live in other files and are fields here.
  \<open>pv\<close> is the subproject's directory name, the second argument of the constructor.
\<close>

record subproject =
  target_info :: "pyval \<Rightarrow> (string \<rightharpoonup> pyval) option"
  target_list_of :: "pyval"
  get_variable_method :: "pyval list \<Rightarrow> kwargs \<Rightarrow> error + pyval"

record holder =
  held_object :: subproject
  pv :: string
  str_other :: "pyval \<Rightarrow> string"

definition info_keys :: "string list" where
  "info_keys = [''inc'', ''src'', ''dep'', ''tgt'', ''func'']"

definition args_to_info :: "holder \<Rightarrow> pyval list \<Rightarrow> error + (string \<rightharpoonup> pyval)" where
  "args_to_info self args =
     (if length args \<noteq> 1 then Inl (InterpreterException ''Exactly one argument is required.'')
      else
        let tgt = hd args in
        case target_info (held_object self) tgt of
          None \<Rightarrow>
            Inl (InterpreterException
                  (''The CMake target '' @ py_str (str_other self) tgt @ '' does not exist''))
        | Some res \<Rightarrow>
            if list_all (\<lambda>x. x \<in> dom res) info_keys then Inr res else Inl AssertionError)"

definition get_variable :: "holder \<Rightarrow> pyval list \<Rightarrow> kwargs \<Rightarrow> error + pyval" where
  "get_variable self args kw = get_variable_method (held_object self) args kw"

text \<open>
  \<^verbatim>\<open>info['dep']\<close> and its siblings: the key is present whenever \<open>args_to_info\<close>
  returned, so the lookup cannot raise there.
\<close>

definition info_get :: "(string \<rightharpoonup> pyval) \<Rightarrow> string \<Rightarrow> pyval" where
  "info_get info k = (case info k of Some v \<Rightarrow> v | None \<Rightarrow> PNone)"

definition dependency :: "holder \<Rightarrow> pyval list \<Rightarrow> kwargs \<Rightarrow> error + pyval" where
  "dependency self args kw =
     (case args_to_info self args of
        Inl e \<Rightarrow> Inl e
      | Inr info \<Rightarrow> get_variable self [info_get info ''dep''] kw)"

definition include_directories :: "holder \<Rightarrow> pyval list \<Rightarrow> kwargs \<Rightarrow> error + pyval" where
  "include_directories self args kw =
     (case args_to_info self args of
        Inl e \<Rightarrow> Inl e
      | Inr info \<Rightarrow> get_variable self [info_get info ''inc''] kw)"

definition target :: "holder \<Rightarrow> pyval list \<Rightarrow> kwargs \<Rightarrow> error + pyval" where
  "target self args kw =
     (case args_to_info self args of
        Inl e \<Rightarrow> Inl e
      | Inr info \<Rightarrow> get_variable self [info_get info ''tgt''] kw)"

definition target_type :: "holder \<Rightarrow> pyval list \<Rightarrow> kwargs \<Rightarrow> error + pyval" where
  "target_type self args kw =
     (case args_to_info self args of
        Inl e \<Rightarrow> Inl e
      | Inr info \<Rightarrow> Inr (info_get info ''func''))"

definition target_list :: "holder \<Rightarrow> pyval list \<Rightarrow> kwargs \<Rightarrow> error + pyval" where
  "target_list self args kw = Inr (target_list_of (held_object self))"

text \<open>
  A subproject with the targets \<^verbatim>\<open>core\<close> and \<^verbatim>\<open>util\<close>, wrapped under the
  directory name \<^verbatim>\<open>zlib\<close>.
\<close>

definition core_util :: subproject where
  "core_util =
     \<lparr> target_info = (\<lambda>t.
         if t = PStr ''core'' \<or> t = PStr ''util'' then
           Some [''inc'' \<mapsto> PStr ''inc'', ''src'' \<mapsto> PStr ''src'', ''dep'' \<mapsto> PStr ''dep'',
                 ''tgt'' \<mapsto> PStr ''tgt'', ''func'' \<mapsto> PStr ''library'']
         else None),
       target_list_of = PList [PStr ''core'', PStr ''util''],
       get_variable_method = (\<lambda>args kw. Inr (PObj ''variable'')) \<rparr>"

definition zlib_holder :: holder where
  "zlib_holder = \<lparr> held_object = core_util, pv = ''zlib'', str_other = (\<lambda>v. ''object'') \<rparr>"

section \<open>The CMake module\<close>

text \<open>
  The two fields of a \<^verbatim>\<open>CmakeModule\<close>: \<^verbatim>\<open>cmake_detected\<close> starts \<^verbatim>\<open>False\<close>,
  \<^verbatim>\<open>cmake_root\<close> starts \<^verbatim>\<open>None\<close>.
\<close>

record cmake_module =
  cmake_detected :: bool
  cmake_root :: "string option"

definition new_module :: cmake_module where
  "new_module = \<lparr> cmake_detected = False, cmake_root = None \<rparr>"

subsection \<open>detect_voidp_size\<close>

definition detect_voidp_size :: "environment \<Rightarrow> world \<Rightarrow> (error + int) \<times> world" where
  "detect_voidp_size e w =
     (let compiler =
            (case compilers_host e ''c'' of
               None \<Rightarrow> compilers_host e ''cpp''
             | Some c \<Rightarrow> Some c)
      in case compiler of
           None \<Rightarrow>
             (Inl (MesonException ''Requires a C or C++ compiler to compute sizeof(void *).''), w)
         | Some c \<Rightarrow> (sizeof_void_p c, w\<lparr>sizeof_runs := Suc (sizeof_runs w)\<rparr>))"

subsection \<open>detect_cmake\<close>

text \<open>
  \<^verbatim>\<open>match.group(1)\<close> of a match of \<open>cmake_root_regex\<close> that starts at \<open>i\<close> and is \<open>n\<close>
  long.
\<close>

definition root_group :: "string \<Rightarrow> nat \<Rightarrow> nat \<Rightarrow> string" where
  "root_group s i n = take (n - 15) (drop (i + 13) s)"

definition detect_cmake ::
  "externals \<Rightarrow> cmake_module \<Rightarrow> world \<Rightarrow> (error + bool) \<times> cmake_module \<times> world" where
  "detect_cmake ext self w =
     (if cmake_detected self then (Inr True, self, w)
      else
        let w1 = w\<lparr>cmake_runs := Suc (cmake_runs w)\<rparr> in
        case run_cmake ext (cmake_runs w) of
          Inl e \<Rightarrow> (Inl e, self, w1)
        | Inr (returncode, stdout, stderr) \<Rightarrow>
            if returncode \<noteq> 0 then
              (Inr False, self,
               w1\<lparr>logged := logged w1 @
                    [''error retrieving cmake information: returnCode='' @ str_int returncode
                     @ '' stdout='' @ stdout @ '' stderr='' @ stderr]\<rparr>)
            else
              (case re_search cmake_root_regex (strip stdout) of
                 None \<Rightarrow>
                   (Inr False, self, w1\<lparr>logged := logged w1 @ [''unable to determine cmake root'']\<rparr>)
               | Some (i, n) \<Rightarrow>
                   (case purepath_parts (root_group (strip stdout) i n) of
                      [] \<Rightarrow> (Inl (TypeError ''join() missing 1 required positional argument''), self, w1)
                    | a # p \<Rightarrow>
                        (Inr True,
                         self\<lparr>cmake_root := Some (join a p), cmake_detected := True\<rparr>, w1))))"

subsection \<open>write_basic_package_version_file\<close>

text \<open>\<^verbatim>\<open>isinstance(v, str)\<close>, and \<^verbatim>\<open>kwargs.get(key, default)\<close>.\<close>

definition is_str :: "pyval \<Rightarrow> bool" where
  "is_str v = (case v of PStr _ \<Rightarrow> True | _ \<Rightarrow> False)"

definition kw_get :: "kwargs \<Rightarrow> string \<Rightarrow> pyval \<Rightarrow> pyval" where
  "kw_get kw k d = (case kw k of None \<Rightarrow> d | Some v \<Rightarrow> v)"

text \<open>Lines 163 to 167: the compatibility mode, checked.\<close>

definition compatibility_arg :: "kwargs \<Rightarrow> error + string" where
  "compatibility_arg kw =
     (case kw_get kw ''compatibility'' (PStr ''AnyNewerVersion'') of
        PStr compatibility \<Rightarrow>
          if compatibility \<notin> set COMPATIBILITIES then
            Inl (MesonException
              ''compatibility must be either AnyNewerVersion, SameMajorVersion or ExactVersion.'')
          else Inr compatibility
      | _ \<Rightarrow> Inl (MesonException ''compatibility is not string.''))"

text \<open>Lines 172 to 176: the install directory, \<^verbatim>\<open>pkgroot\<close>.\<close>

definition pkgroot_arg :: "environment \<Rightarrow> kwargs \<Rightarrow> string \<Rightarrow> error + string" where
  "pkgroot_arg e kw name =
     (case (case kw_get kw ''install_dir'' PNone of
              PNone \<Rightarrow> PStr (join (opt_libdir e) [''cmake'', name])
            | v \<Rightarrow> v) of
        PStr pkgroot \<Rightarrow> Inr pkgroot
      | _ \<Rightarrow> Inl (MesonException ''Install_dir must be a string.''))"

text \<open>Line 178; \<^verbatim>\<open>os.path.join\<close> raises when \<^verbatim>\<open>cmake_root\<close> is still \<^verbatim>\<open>None\<close>.\<close>

definition template_file_of :: "cmake_module \<Rightarrow> string \<Rightarrow> error + string" where
  "template_file_of self compatibility =
     (case cmake_root self of
        None \<Rightarrow> Inl (TypeError ''expected str, not NoneType'')
      | Some root \<Rightarrow>
          Inr (join root [''Modules'', ''BasicConfigVersion-'' @ compatibility @ ''.cmake.in'']))"

definition unsupported_message :: "string \<Rightarrow> string" where
  "unsupported_message compatibility =
     ''your cmake installation doesn'' @ [CHR 0x27] @ ''t support the '' @ compatibility
     @ '' compatibility''"

definition write_basic_package_version_file ::
  "externals \<Rightarrow> cmake_module \<Rightarrow> mstate \<Rightarrow> kwargs \<Rightarrow> world
     \<Rightarrow> (error + ModuleReturnValue) \<times> cmake_module \<times> world" where
  "write_basic_package_version_file ext self state kw w =
     (case kw_get kw ''version'' PNone of
        PStr version \<Rightarrow>
        (case kw_get kw ''name'' PNone of
          PStr name \<Rightarrow>
          (case compatibility_arg kw of
            Inl e \<Rightarrow> (Inl e, self, w)
          | Inr compatibility \<Rightarrow>
          (case detect_cmake ext self w of
            (Inl e, self1, w1) \<Rightarrow> (Inl e, self1, w1)
          | (Inr False, self1, w1) \<Rightarrow> (Inl (MesonException ''Unable to find cmake''), self1, w1)
          | (Inr True, self1, w1) \<Rightarrow>
          (case pkgroot_arg (env state) kw name of
            Inl e \<Rightarrow> (Inl e, self1, w1)
          | Inr pkgroot \<Rightarrow>
          (case template_file_of self1 compatibility of
            Inl e \<Rightarrow> (Inl e, self1, w1)
          | Inr template_file \<Rightarrow>
            if \<not> exists_path w1 template_file then
              (Inl (MesonException (unsupported_message compatibility)), self1, w1)
            else
              let version_file =
                    join (scratch_dir (env state)) [name @ ''ConfigVersion.cmake'']
              in
              (case detect_voidp_size (env state) w1 of
                (Inl e, w2) \<Rightarrow> (Inl e, self1, w2)
              | (Inr voidp, w2) \<Rightarrow>
                  let conf = [''CVF_VERSION'' \<mapsto> (version, []),
                              ''CMAKE_SIZEOF_VOID_P'' \<mapsto> (str_int voidp, [])]
                  in
                  (case do_conf_file ext template_file version_file conf w2 of
                    (Some e, w3) \<Rightarrow> (Inl e, self1, w3)
                  | (None, w3) \<Rightarrow>
                      let res = \<lparr> sources =
                                    [\<lparr> is_built = True, subdir = scratch_dir (env state),
                                       fname = version_file \<rparr>],
                                  install_dir = pkgroot \<rparr>
                      in (Inr \<lparr> return_value = res, new_objects = [res] \<rparr>, self1, w3)))))))
        | _ \<Rightarrow> (Inl (MesonException ''Name not specified.''), self, w))
      | _ \<Rightarrow> (Inl (MesonException ''Version must be specified.''), self, w))"

subsection \<open>create_package_file\<close>

text \<open>
  Modelled from the spec: \<^verbatim>\<open>mesonlib.do_replacement(regex, line, format, confdata)\<close> is
  not in this file; only the pattern it is given (line 206) and the call (line 209)
  are. The spec's substitution engine scans the line with the pattern and, for each
  match: a run of backslashes before an \<^verbatim>\<open>@\<close> is emitted with its count halved; an
  escaped \<^verbatim>\<open>@\<close> is emitted as \<^verbatim>\<open>@\<close>; a well-formed token \<^verbatim>\<open>@name@\<close> becomes the
  mapped value if the name is in the mapping, else stays as it is, and the name is
  recorded in \<^verbatim>\<open>missing_keys\<close>, once per occurrence. The three alternatives of the
  pattern are told apart by the text they match: the first matches backslashes only,
  the second a backslash and an \<^verbatim>\<open>@\<close>, the third starts with \<^verbatim>\<open>@\<close>, and its group is
  the match without its first and last character.
\<close>

datatype match_kind = Escapes nat | EscapedAt | Token string

definition kind_of :: "string \<Rightarrow> match_kind" where
  "kind_of m =
     (if m \<noteq> [] \<and> last m = CHR 0x5C then Escapes (length m)
      else if m = [CHR 0x5C, CHR ''@''] then EscapedAt
      else Token (butlast (tl m)))"

definition variable_replace :: "confdata \<Rightarrow> string \<Rightarrow> string" where
  "variable_replace confdata m =
     (case kind_of m of
        Escapes n \<Rightarrow> replicate (n div 2) (CHR 0x5C)
      | EscapedAt \<Rightarrow> ''@''
      | Token varname \<Rightarrow>
          (case confdata varname of
             Some (var, desc) \<Rightarrow> var
           | None \<Rightarrow> m))"

definition missing_of :: "confdata \<Rightarrow> piece \<Rightarrow> string list" where
  "missing_of confdata p =
     (case p of
        Lit c \<Rightarrow> []
      | Match m \<Rightarrow>
          (case kind_of m of
             Token varname \<Rightarrow> (if confdata varname = None then [varname] else [])
           | _ \<Rightarrow> []))"

definition do_replacement :: "regex \<Rightarrow> string \<Rightarrow> confdata \<Rightarrow> string \<times> string list" where
  "do_replacement regex line confdata =
     (re_sub regex (variable_replace confdata) line,
      concat (map (missing_of confdata) (scan regex line)))"

text \<open>
  A name as the third alternative of the pattern takes it: one or more characters of
  \<^verbatim>\<open>[-a-zA-Z0-9_]\<close>. A text is clean when it has no \<^verbatim>\<open>@\<close> and no backslash, the two
  characters a match can start with.
\<close>

definition valid_name :: "string \<Rightarrow> bool" where
  "valid_name name = (name \<noteq> [] \<and> list_all name_char name)"

definition clean :: "string \<Rightarrow> bool" where
  "clean s = list_all (\<lambda>c. c \<noteq> CHR ''@'' \<and> c \<noteq> CHR 0x5C) s"

text \<open>Lines 194 to 197: the block that replaces \<^verbatim>\<open>@PACKAGE_INIT@\<close>.\<close>

definition package_init :: "string \<Rightarrow> string \<Rightarrow> string \<Rightarrow> string" where
  "package_init infile PACKAGE_RELATIVE_PATH extra =
     str_replace
       (str_replace PACKAGE_INIT_BASE ''@PACKAGE_RELATIVE_PATH@'' PACKAGE_RELATIVE_PATH)
       ''@inputFileName@'' infile
     @ extra @ PACKAGE_INIT_SET_AND_CHECK"

text \<open>
  Lines 208 to 211, the body of the loop over the lines: the textual replacement, then
  the scan. What the scan reports as missing is bound to \<^verbatim>\<open>_missing\<close> and not used
  again: the line alone is appended to \<^verbatim>\<open>result\<close>.
\<close>

definition render_line :: "string \<Rightarrow> confdata \<Rightarrow> string \<Rightarrow> string" where
  "render_line pinit confdata line =
     fst (do_replacement placeholder_regex (str_replace line ''@PACKAGE_INIT@'' pinit) confdata)"

text \<open>
  The run of \<^verbatim>\<open>create_package_file\<close>: the exception it ends with, if any, and the
  worlds it goes through, one after each change of the file system. The function's
  own result is the last of them; Python's return value is \<^verbatim>\<open>None\<close>.
\<close>

definition create_package_file_run ::
  "string \<Rightarrow> string \<Rightarrow> string \<Rightarrow> string \<Rightarrow> confdata \<Rightarrow> world \<Rightarrow> error option \<times> world list" where
  "create_package_file_run infile outfile PACKAGE_RELATIVE_PATH extra confdata w =
     (let pinit = package_init infile PACKAGE_RELATIVE_PATH extra in
      case read_lines w infile of
        Inl e \<Rightarrow>
          (Some (MesonException (''Could not read input file '' @ infile @ '': '' @ e)), [])
      | Inr data \<Rightarrow>
          let result = map (render_line pinit confdata) data;
              outfile_tmp = outfile @ ''~''
          in
          (case open_w w outfile_tmp of
             Inl e \<Rightarrow> (Some e, [])
           | Inr w1 \<Rightarrow>
               let ws = w1 # write_states w1 outfile_tmp result in
               (case copymode (last ws) infile outfile_tmp of
                  Inl e \<Rightarrow> (Some e, ws)
                | Inr w3 \<Rightarrow> (None, ws @ [w3, replace_if_different outfile outfile_tmp w3]))))"

definition create_package_file ::
  "string \<Rightarrow> string \<Rightarrow> string \<Rightarrow> string \<Rightarrow> confdata \<Rightarrow> world \<Rightarrow> error option \<times> world" where
  "create_package_file infile outfile PACKAGE_RELATIVE_PATH extra confdata w =
     (case create_package_file_run infile outfile PACKAGE_RELATIVE_PATH extra confdata w of
        (r, ws) \<Rightarrow> (r, last (w # ws)))"

text \<open>
  The full rendered content of a template whose file is \<open>f\<close>: its lines, each
  rendered, one after the other.
\<close>

definition rendered :: "string \<Rightarrow> string \<Rightarrow> string \<Rightarrow> confdata \<Rightarrow> fnode \<Rightarrow> string" where
  "rendered infile rel extra confdata f =
     concat (map (render_line (package_init infile rel extra) confdata)
                 (readlines (universal_newlines (content f))))"

subsection \<open>configure_package_config_file\<close>

text \<open>Lines 228 to 236: the value of \<^verbatim>\<open>input\<close> becomes one \<^verbatim>\<open>File\<close>.\<close>

definition input_file :: "externals \<Rightarrow> mstate \<Rightarrow> world \<Rightarrow> pyval \<Rightarrow> error + File" where
  "input_file ext state w v0 =
     (case (case v0 of
              PList xs \<Rightarrow>
                if length xs \<noteq> 1 then
                  Inl (MesonException
                        (''Keyword argument '' @ [CHR 0x27] @ ''input'' @ [CHR 0x27]
                         @ '' requires exactly one file''))
                else Inr (hd xs)
            | _ \<Rightarrow> Inr v0) of
        Inl e \<Rightarrow> Inl e
      | Inr v \<Rightarrow>
          (case v of
             PStr s \<Rightarrow> from_source_file ext w (source_dir (env state)) (cur_subdir state) s
           | PFile f \<Rightarrow> Inr f
           | _ \<Rightarrow> Inl (MesonException ''input must be a string or a file'')))"

text \<open>
  Lines 247 and 248: the local \<^verbatim>\<open>install_dir\<close> after the \<^verbatim>\<open>if\<close>, \<open>None\<close> when
  nothing was assigned to it. \<^verbatim>\<open>os.path.join\<close> raises on a name that is not a string.
  Lines 249 and 250 then read the local: unassigned, Python raises; assigned, it is the
  string that \<^verbatim>\<open>join\<close> returned, and the \<^verbatim>\<open>isinstance\<close> test holds.
\<close>

definition install_dir_assigned :: "environment \<Rightarrow> kwargs \<Rightarrow> pyval \<Rightarrow> error + string option" where
  "install_dir_assigned e kw name =
     (if ''install_dir'' \<notin> dom kw then
        (case name of
           PStr n \<Rightarrow> Inr (Some (join (opt_libdir e) [''cmake'', n]))
         | _ \<Rightarrow> Inl (TypeError ''join() argument must be str''))
      else Inr None)"

definition install_dir_checked :: "string option \<Rightarrow> error + string" where
  "install_dir_checked local =
     (case local of
        None \<Rightarrow> Inl (UnboundLocalError ''install_dir'')
      | Some d \<Rightarrow> Inr d)"

text \<open>Lines 259 to 261, line 263 and lines 264 to 267.\<close>

definition abs_install_dir :: "string \<Rightarrow> string \<Rightarrow> string" where
  "abs_install_dir pfx dir = (if \<not> isabs dir then join pfx [dir] else dir)"

definition PACKAGE_RELATIVE_PATH :: "string \<Rightarrow> string \<Rightarrow> string \<Rightarrow> error + string" where
  "PACKAGE_RELATIVE_PATH cwd_now pfx dir = relpath cwd_now pfx (abs_install_dir pfx dir)"

definition extra_block :: "string \<Rightarrow> string \<Rightarrow> string" where
  "extra_block pfx dir =
     (if re_match lib_regex (abs_install_dir pfx dir) \<noteq> None then
        str_replace
          (str_replace PACKAGE_INIT_EXT ''@absInstallDir@'' (abs_install_dir pfx dir))
          ''@installPrefix@'' pfx
      else [])"

definition configure_package_config_file ::
  "externals \<Rightarrow> interpreter \<Rightarrow> mstate \<Rightarrow> pyval list \<Rightarrow> kwargs \<Rightarrow> world
     \<Rightarrow> (error + Data \<times> conf_holder) \<times> interpreter \<times> world" where
  "configure_package_config_file ext interp state args kw w =
     (if args \<noteq> [] then
        (Inl (MesonException ''configure_package_config_file takes only keyword arguments.''),
         interp, w)
      else
        case kw ''input'' of
          None \<Rightarrow>
            (Inl (MesonException ''configure_package_config_file requires \"input\" keyword.''),
             interp, w)
        | Some v0 \<Rightarrow>
        (case input_file ext state w v0 of
          Inl e \<Rightarrow> (Inl e, interp, w)
        | Inr inputfile \<Rightarrow>
        let ifile_abs =
              absolute_path ext inputfile (source_dir (env state)) (build_dir (env state))
        in
        (case kw ''name'' of
          None \<Rightarrow> (Inl (MesonException ''\"name\" not specified.''), interp, w)
        | Some name \<Rightarrow>
        let (ofile_path, ofile_fname) =
              path_split (join (cur_subdir state) [py_str (str_of ext) name @ ''Config.cmake'']);
            ofile_abs = join (build_dir (env state)) [ofile_path, ofile_fname]
        in
        (case install_dir_assigned (env state) kw name of
          Inl e \<Rightarrow> (Inl e, interp, w)
        | Inr local \<Rightarrow>
        (case install_dir_checked local of
          Inl e \<Rightarrow> (Inl e, interp, w)
        | Inr dir \<Rightarrow>
        (case kw ''configuration'' of
          None \<Rightarrow> (Inl (MesonException ''\"configuration\" not specified.''), interp, w)
        | Some (PConf conf) \<Rightarrow>
            let pfx = opt_prefix (env state) in
            (case PACKAGE_RELATIVE_PATH (cwd w) pfx dir of
              Inl e \<Rightarrow> (Inl e, interp, w)
            | Inr rel \<Rightarrow>
            (case create_package_file ifile_abs ofile_abs rel (extra_block pfx dir)
                    (conf_values conf) w of
              (Some e, w') \<Rightarrow> (Inl e, interp, w')
            | (None, w') \<Rightarrow>
                let conffile = normpath (relative_name ext inputfile);
                    interp1 =
                      (if conffile \<in> set (build_def_files interp) then interp
                       else interp\<lparr>build_def_files := build_def_files interp @ [conffile]\<rparr>);
                    res = \<lparr> sources =
                              [\<lparr> is_built = True, subdir = ofile_path, fname = ofile_fname \<rparr>],
                            install_dir = dir \<rparr>
                in (Inr (res, conf\<lparr>used := True\<rparr>),
                    interp1\<lparr>build_data := build_data interp1 @ [res]\<rparr>, w')))
        | Some _ \<Rightarrow>
            (Inl (MesonException
                   ''Argument \"configuration\" is not of type configuration_data''),
             interp, w)))))))"

section \<open>A small build, for the concrete cases\<close>

text \<open>
  The collaborators as Meson has them in outline: a working CMake whose system
  information names its root, \<^verbatim>\<open>File\<close> methods that join the directories, and a
  \<^verbatim>\<open>do_conf_file\<close> that renders the template into the output in one step.
\<close>

definition cmake_ok :: "nat \<Rightarrow> error + (int \<times> string \<times> string)" where
  "cmake_ok n = Inr (0, ''CMAKE_VERSION \"3.16\"\<newline>CMAKE_ROOT \"/usr/share/cmake\"\<newline>CMAKE_GENERATOR \"Ninja\"\<newline>'', [])"

definition cmake_fails_once :: "nat \<Rightarrow> error + (int \<times> string \<times> string)" where
  "cmake_fails_once n = (if n = 0 then Inr (1, [], ''no generator'') else cmake_ok n)"

definition ext0 :: externals where
  "ext0 =
     \<lparr> run_cmake = cmake_ok,
       str_of = (\<lambda>v. ''object''),
       from_source_file = (\<lambda>w root sub f.
          if exists_path w (join root [sub, f])
          then Inr \<lparr> is_built = False, subdir = sub, fname = f \<rparr>
          else Inl (External (''File '' @ f @ '' does not exist.''))),
       absolute_path = (\<lambda>f src bld. join (if is_built f then bld else src) [join (subdir f) [fname f]]),
       relative_name = (\<lambda>f. join (subdir f) [fname f]),
       do_conf_file = (\<lambda>src dst conf w.
          case read_lines w src of
            Inl e \<Rightarrow> (Some (External e), w)
          | Inr data \<Rightarrow>
              (None, w\<lparr>files := (files w)(dst \<mapsto>
                 \<lparr>content = concat (map (\<lambda>l. fst (do_replacement placeholder_regex l conf)) data),
                  mode = new_mode w\<rparr>)\<rparr>)) \<rparr>"

definition env0 :: environment where
  "env0 =
     \<lparr> source_dir = ''/src'', build_dir = ''/build'', scratch_dir = ''/build/meson-private'',
       opt_libdir = ''lib'', opt_prefix = ''/usr/local'',
       compilers_host = [''c'' \<mapsto> \<lparr> sizeof_void_p = Inr 8 \<rparr>] \<rparr>"

definition state0 :: mstate where
  "state0 = \<lparr> env = env0, cur_subdir = [] \<rparr>"

definition interp0 :: interpreter where
  "interp0 = \<lparr> build_def_files = [], build_data = [] \<rparr>"

text \<open>
  A world with one template, \<^verbatim>\<open>/src/FooConfig.cmake.in\<close>, of two lines with one
  placeholder, and the version template of CMake for \<^verbatim>\<open>AnyNewerVersion\<close>.
\<close>

definition world0 :: world where
  "world0 =
     \<lparr> files =
         [''/src/FooConfig.cmake.in'' \<mapsto>
            \<lparr> content = ''# config\<newline>set(FOO_VERSION @foo@)\<newline>'', mode = 420 \<rparr>,
          ''/usr/share/cmake/Modules/BasicConfigVersion-AnyNewerVersion.cmake.in'' \<mapsto>
            \<lparr> content = ''set(PACKAGE_VERSION \"@CVF_VERSION@\")\<newline>'', mode = 420 \<rparr>],
       writable = (\<lambda>p. True),
       new_mode = 384,
       cwd = ''/build'',
       os_error = (\<lambda>p. ''No such file or directory''),
       cmake_runs = 0,
       sizeof_runs = 0,
       logged = [] \<rparr>"

definition conf_empty :: conf_holder where
  "conf_empty = \<lparr> conf_values = Map.empty, used = False \<rparr>"

definition conf_foo :: conf_holder where
  "conf_foo = \<lparr> conf_values = [''foo'' \<mapsto> (''1.2.3'', ''the version'')], used = False \<rparr>"

definition kwargs0 :: "conf_holder \<Rightarrow> kwargs" where
  "kwargs0 conf =
     [''input'' \<mapsto> PStr ''FooConfig.cmake.in'', ''name'' \<mapsto> PStr ''Foo'',
      ''configuration'' \<mapsto> PConf conf]"

text \<open>The same collaborators with a CMake binary whose first run fails.\<close>

definition ext_flaky :: externals where
  "ext_flaky = ext0\<lparr>run_cmake := cmake_fails_once\<rparr>"

definition version_kwargs :: kwargs where
  "version_kwargs = [''version'' \<mapsto> PStr ''1.2.3'', ''name'' \<mapsto> PStr ''Foo'']"


definition exact_kwargs :: kwargs where
  "exact_kwargs = version_kwargs(''compatibility'' \<mapsto> PStr ''ExactVersion'')"

definition kwargs_dir :: "pyval \<Rightarrow> kwargs" where
  "kwargs_dir v = (kwargs0 conf_foo)(''install_dir'' \<mapsto> v)"

text \<open>A template path with a placeholder in it, as a source directory may be named.\<close>

definition odd_infile :: string where
  "odd_infile = ''/src/@foo@/FooConfig.cmake.in''"

section \<open>Unknown targets\<close>

lemma args_to_info_unknown:
  "target_info (held_object self) tgt = None \<Longrightarrow>
   args_to_info self [tgt] =
     Inl (InterpreterException
           (''The CMake target '' @ py_str (str_other self) tgt @ '' does not exist''))"
  by (simp add: args_to_info_def)

text \<open>
  C9, as the code has it. Called with one name that \<open>target_info\<close> does not know,
  each of \<open>dependency\<close>, \<open>include_directories\<close>, \<open>target\<close> and \<open>target_type\<close> raises
  the InterpreterException whose message is \<^verbatim>\<open>The CMake target <name> does not exist\<close>:
  it names the target. The message is built from the target alone, so it is the same
  for every subproject directory name \<open>pv\<close>.
\<close>

theorem unknown_target_error:
  assumes "target_info (held_object self) tgt = None"
  shows "dependency self [tgt] kw =
           Inl (InterpreterException
                 (''The CMake target '' @ py_str (str_other self) tgt @ '' does not exist''))
       \<and> include_directories self [tgt] kw = dependency self [tgt] kw
       \<and> target self [tgt] kw = dependency self [tgt] kw
       \<and> target_type self [tgt] kw = dependency self [tgt] kw
       \<and> dependency (self\<lparr>pv := other_name\<rparr>) [tgt] kw = dependency self [tgt] kw"
  using assms
  by (simp add: dependency_def include_directories_def target_def target_type_def
      args_to_info_unknown)

theorem unknown_target_error_witness:
  "target_info (held_object zlib_holder) (PStr ''nonexistent'') = None
   \<and> target zlib_holder [PStr ''nonexistent''] Map.empty =
       Inl (InterpreterException ''The CMake target nonexistent does not exist'')"
proof -
  have h: "target_info (held_object zlib_holder) (PStr ''nonexistent'') = None"
    by (simp add: zlib_holder_def core_util_def)
  from unknown_target_error [OF h, of Map.empty "''zlib''"]
  show ?thesis using h by (simp add: py_str_def zlib_holder_def)
qed

text \<open>
  The claim's "names both the unknown target and the subproject" fails: asking the
  subproject wrapped as \<^verbatim>\<open>zlib\<close> for the target \<^verbatim>\<open>nonexistent\<close> gives a message
  that does not contain \<^verbatim>\<open>zlib\<close>.
\<close>

theorem unknown_target_counterexample:
  "target zlib_holder [PStr ''nonexistent''] Map.empty =
     Inl (InterpreterException ''The CMake target nonexistent does not exist'')
   \<and> \<not> contains (pv zlib_holder) ''The CMake target nonexistent does not exist''"
  by (simp add: target_def args_to_info_def zlib_holder_def core_util_def py_str_def)

section \<open>Detection and its cache\<close>

lemma detect_cmake_cached:
  "cmake_detected self \<Longrightarrow> detect_cmake ext self w = (Inr True, self, w)"
  by (simp add: detect_cmake_def)

lemma detect_cmake_True:
  "fst (detect_cmake ext self w) = Inr True \<Longrightarrow> cmake_detected (fst (snd (detect_cmake ext self w)))"
  by (auto simp: detect_cmake_def Let_def split: if_splits sum.splits prod.splits option.splits list.splits)

lemma detect_cmake_False:
  "fst (detect_cmake ext self w) = Inr False \<Longrightarrow>
     fst (snd (detect_cmake ext self w)) = self \<and> \<not> cmake_detected self"
  by (auto simp: detect_cmake_def Let_def split: if_splits sum.splits prod.splits option.splits list.splits)

lemma detect_cmake_runs:
  "\<not> cmake_detected self \<Longrightarrow>
     cmake_runs (snd (snd (detect_cmake ext self w))) = Suc (cmake_runs w)"
  by (auto simp: detect_cmake_def Let_def split: if_splits sum.splits prod.splits option.splits list.splits)

lemma detect_voidp_size_runs:
  "compilers_host e ''c'' \<noteq> None \<or> compilers_host e ''cpp'' \<noteq> None \<Longrightarrow>
     sizeof_runs (snd (detect_voidp_size e w)) = Suc (sizeof_runs w)"
  by (auto simp: detect_voidp_size_def split: option.splits)

text \<open>
  C10, as the code has it. After a call of \<open>detect_cmake\<close> that returned \<^verbatim>\<open>True\<close>,
  any later call, in any world and whatever the binary would do then, returns
  \<^verbatim>\<open>True\<close> and leaves the module and the world as they are: the binary is not run
  again. A call that returned \<^verbatim>\<open>False\<close> caches nothing: the module is unchanged, and
  the next call runs the binary once more. \<open>detect_voidp_size\<close> caches nothing either:
  every call that finds a C or C++ compiler runs the compiler's check.
\<close>

theorem detection_cache:
  "(fst (detect_cmake ext self w) = Inr True \<longrightarrow>
      detect_cmake ext' (fst (snd (detect_cmake ext self w))) w' =
        (Inr True, fst (snd (detect_cmake ext self w)), w'))
   \<and> (fst (detect_cmake ext self w) = Inr False \<longrightarrow>
      fst (snd (detect_cmake ext self w)) = self
      \<and> cmake_runs (snd (snd (detect_cmake ext' self w'))) = Suc (cmake_runs w'))
   \<and> (compilers_host e ''c'' \<noteq> None \<or> compilers_host e ''cpp'' \<noteq> None \<longrightarrow>
      sizeof_runs (snd (detect_voidp_size e w')) = Suc (sizeof_runs w'))"
  using detect_cmake_cached detect_cmake_True detect_cmake_False detect_cmake_runs
    detect_voidp_size_runs
  by metis

lemma ok_True: "fst (detect_cmake ext0 new_module world0) = Inr True"
  by code_simp

lemma flaky_False: "fst (detect_cmake ext_flaky new_module world0) = Inr False"
  by code_simp

lemma env0_c: "compilers_host env0 ''c'' \<noteq> None"
  by (simp add: env0_def)

theorem detection_cache_witness:
  "fst (detect_cmake ext0 new_module world0) = Inr True
   \<and> detect_cmake ext_flaky (fst (snd (detect_cmake ext0 new_module world0))) world0 =
       (Inr True, fst (snd (detect_cmake ext0 new_module world0)), world0)
   \<and> fst (detect_cmake ext_flaky new_module world0) = Inr False
   \<and> cmake_runs (snd (snd (detect_cmake ext0 new_module world0))) = Suc (cmake_runs world0)
   \<and> compilers_host env0 ''c'' \<noteq> None
   \<and> sizeof_runs (snd (detect_voidp_size env0 world0)) = Suc (sizeof_runs world0)"
  using detection_cache [of ext0 new_module world0 ext_flaky world0 env0]
    detection_cache [of ext_flaky new_module world0 ext0 world0 env0]
    ok_True flaky_False env0_c
  by simp

text \<open>
  The claim's "both on success and on failure" and "the pointer-size probe result is
  cached" fail. With a binary whose first run exits with 1, the first detection returns
  \<^verbatim>\<open>False\<close> after one run; the second detection runs the binary a second time and
  returns \<^verbatim>\<open>True\<close>, not the earlier outcome. Two calls of \<open>detect_voidp_size\<close>
  run the compiler's check twice.
\<close>

theorem detection_cache_counterexample:
  "fst (detect_cmake ext_flaky new_module world0) = Inr False
   \<and> cmake_runs (snd (snd (detect_cmake ext_flaky new_module world0))) = 1
   \<and> fst (detect_cmake ext_flaky
            (fst (snd (detect_cmake ext_flaky new_module world0)))
            (snd (snd (detect_cmake ext_flaky new_module world0)))) = Inr True
   \<and> cmake_runs (snd (snd (detect_cmake ext_flaky
            (fst (snd (detect_cmake ext_flaky new_module world0)))
            (snd (snd (detect_cmake ext_flaky new_module world0)))))) = 2
   \<and> sizeof_runs (snd (detect_voidp_size env0 (snd (detect_voidp_size env0 world0)))) = 2"
  by code_simp

section \<open>The compatibility mode\<close>














section \<open>A mode that CMake does not ship\<close>

lemma detect_cmake_triple:
  "fst (detect_cmake ext self w) = Inr True \<Longrightarrow>
   detect_cmake ext self w =
     (Inr True, fst (snd (detect_cmake ext self w)), snd (snd (detect_cmake ext self w)))"
  by (metis prod.collapse)

text \<open>
  C8, as the code has it. When \<^verbatim>\<open>version\<close> and \<^verbatim>\<open>name\<close> are strings, the mode is
  one of the four, the detection returned \<^verbatim>\<open>True\<close> with a root, \<^verbatim>\<open>install_dir\<close> is
  absent, \<^verbatim>\<open>None\<close> or a string, and the template of the mode does not exist under the
  root's \<^verbatim>\<open>Modules\<close>, the operation raises the MesonException that names the mode,
  \<^verbatim>\<open>your cmake installation doesn't support the <mode> compatibility\<close>, and the files
  are as they were.
\<close>

theorem unsupported_mode_error:
  assumes "kw ''version'' = Some (PStr version)"
    and "kw ''name'' = Some (PStr name)"
    and "compatibility_arg kw = Inr c"
    and "fst (detect_cmake ext self w) = Inr True"
    and "cmake_root (fst (snd (detect_cmake ext self w))) = Some root"
    and "kw ''install_dir'' = None \<or> kw ''install_dir'' = Some PNone
         \<or> (\<exists>d. kw ''install_dir'' = Some (PStr d))"
    and "\<not> exists_path (snd (snd (detect_cmake ext self w)))
           (join root [''Modules'', ''BasicConfigVersion-'' @ c @ ''.cmake.in''])"
  shows "write_basic_package_version_file ext self state kw w =
           (Inl (MesonException
                  (''your cmake installation doesn'' @ [CHR 0x27] @ ''t support the '' @ c
                   @ '' compatibility'')),
            fst (snd (detect_cmake ext self w)), snd (snd (detect_cmake ext self w)))
         \<and> files (snd (snd (detect_cmake ext self w))) = files w"
proof -
  have p: "\<exists>d. pkgroot_arg (env state) kw name = Inr d"
    using assms(6) by (auto simp: pkgroot_arg_def kw_get_def)
  have f: "files (snd (snd (detect_cmake ext self w))) = files w"
    by (auto simp: detect_cmake_def Let_def split: sum.splits prod.splits option.splits list.splits)
  show ?thesis
    using assms(1,2,3,5,7) p f detect_cmake_triple [OF assms(4)]
    by (auto simp: write_basic_package_version_file_def kw_get_def template_file_of_def
        unsupported_message_def split: prod.splits)
qed

lemma exact_mode: "compatibility_arg exact_kwargs = Inr ''ExactVersion''"
  by (simp add: compatibility_arg_def exact_kwargs_def kw_get_def COMPATIBILITIES_def)

lemma ok_root: "cmake_root (fst (snd (detect_cmake ext0 new_module world0))) = Some ''/usr/share/cmake''"
  by code_simp

lemma no_exact_template:
  "\<not> exists_path (snd (snd (detect_cmake ext0 new_module world0)))
       (join ''/usr/share/cmake'' [''Modules'', ''BasicConfigVersion-'' @ ''ExactVersion'' @ ''.cmake.in''])"
  by code_simp

theorem unsupported_mode_error_witness:
  "compatibility_arg exact_kwargs = Inr ''ExactVersion''
   \<and> fst (detect_cmake ext0 new_module world0) = Inr True
   \<and> fst (write_basic_package_version_file ext0 new_module state0 exact_kwargs world0) =
       Inl (MesonException
             (''your cmake installation doesn'' @ [CHR 0x27]
              @ ''t support the ExactVersion compatibility''))"
  using unsupported_mode_error [of exact_kwargs "''1.2.3''" "''Foo''" "''ExactVersion''"
      ext0 new_module world0 "''/usr/share/cmake''" state0]
    exact_mode ok_True ok_root no_exact_template
  by (simp add: exact_kwargs_def version_kwargs_def)

text \<open>
  The claim as stated leaves out the check of \<^verbatim>\<open>install_dir\<close> (lines 175 and 176),
  which comes before the template is looked for: with a valid mode, a successful
  detection and no template for the mode, \<^verbatim>\<open>install_dir: 5\<close> is answered with
  \<^verbatim>\<open>Install_dir must be a string.\<close>, which does not name the mode.
\<close>

theorem unsupported_mode_counterexample:
  "compatibility_arg (exact_kwargs(''install_dir'' \<mapsto> PInt 5)) = Inr ''ExactVersion''
   \<and> fst (detect_cmake ext0 new_module world0) = Inr True
   \<and> \<not> exists_path (snd (snd (detect_cmake ext0 new_module world0)))
         ''/usr/share/cmake/Modules/BasicConfigVersion-ExactVersion.cmake.in''
   \<and> fst (write_basic_package_version_file ext0 new_module state0
            (exact_kwargs(''install_dir'' \<mapsto> PInt 5)) world0) =
       Inl (MesonException ''Install_dir must be a string.'')"
  by code_simp

section \<open>The unassigned local of configure_package_config_file\<close>

lemma install_dir_assigned_present:
  "''install_dir'' \<in> dom kw \<Longrightarrow> install_dir_assigned e kw name = Inr None"
  by (simp add: install_dir_assigned_def)

lemma install_dir_assigned_Some:
  "install_dir_assigned e kw name = Inr (Some d) \<Longrightarrow>
     ''install_dir'' \<notin> dom kw \<and> (\<exists>n. name = PStr n \<and> d = join (opt_libdir e) [''cmake'', n])"
  by (auto simp: install_dir_assigned_def split: if_splits pyval.splits)

text \<open>What a call whose keywords hold \<^verbatim>\<open>install_dir\<close> comes to, check by check.\<close>

lemma cpcf_present:
  assumes "''install_dir'' \<in> dom kw"
  shows "configure_package_config_file ext interp state args kw w =
     (if args \<noteq> [] then
        (Inl (MesonException ''configure_package_config_file takes only keyword arguments.''),
         interp, w)
      else case kw ''input'' of
          None \<Rightarrow>
            (Inl (MesonException ''configure_package_config_file requires \"input\" keyword.''),
             interp, w)
        | Some v0 \<Rightarrow>
          (case input_file ext state w v0 of
             Inl e \<Rightarrow> (Inl e, interp, w)
           | Inr inputfile \<Rightarrow>
             (case kw ''name'' of
                None \<Rightarrow> (Inl (MesonException ''\"name\" not specified.''), interp, w)
              | Some name \<Rightarrow> (Inl (UnboundLocalError ''install_dir''), interp, w))))"
proof (cases "args \<noteq> []")
  case True
  then show ?thesis by (simp add: configure_package_config_file_def)
next
  case na: False
  show ?thesis
  proof (cases "kw ''input''")
    case None
    then show ?thesis using na by (simp add: configure_package_config_file_def)
  next
    case (Some v0)
    note i = this
    show ?thesis
    proof (cases "input_file ext state w v0")
      case (Inl e)
      then show ?thesis using na i by (simp add: configure_package_config_file_def)
    next
      case (Inr f)
      note f = this
      show ?thesis
      proof (cases "kw ''name''")
        case None
        then show ?thesis using na i f by (simp add: configure_package_config_file_def)
      next
        case (Some name)
        then show ?thesis
          using na i f install_dir_assigned_present [OF assms]
          by (simp add: configure_package_config_file_def install_dir_checked_def
              case_prod_beta)
      qed
    qed
  qed
qed


text \<open>
  C2, as the code has it. For every call whose keyword arguments hold \<^verbatim>\<open>install_dir\<close>:
  the call raises and leaves the interpreter and the files as they were, so no output
  file is produced; when the checks before line 247 pass (no positional argument, an
  \<^verbatim>\<open>input\<close> that gives one file, a \<^verbatim>\<open>name\<close>) the exception is the UnboundLocalError
  for \<^verbatim>\<open>install_dir\<close>; the value supplied is never used, the call with any other
  value is the same; and the local is assigned only where the key is absent, to
  \<^verbatim>\<open><libdir>/cmake/<name>\<close>.
\<close>

theorem install_dir_unbound:
  assumes "''install_dir'' \<in> dom kw"
  shows "(\<exists>e. configure_package_config_file ext interp state args kw w = (Inl e, interp, w))
       \<and> (\<forall>v0 f name. args = [] \<and> kw ''input'' = Some v0 \<and> input_file ext state w v0 = Inr f
             \<and> kw ''name'' = Some name \<longrightarrow>
            configure_package_config_file ext interp state args kw w =
              (Inl (UnboundLocalError ''install_dir''), interp, w))
       \<and> configure_package_config_file ext interp state args (kw(''install_dir'' \<mapsto> v)) w =
           configure_package_config_file ext interp state args kw w
       \<and> install_dir_assigned (env state) kw name' = Inr None
       \<and> (\<forall>kw' d. install_dir_assigned (env state) kw' name' = Inr (Some d) \<longrightarrow>
             ''install_dir'' \<notin> dom kw'
             \<and> (\<exists>n. name' = PStr n \<and> d = join (opt_libdir (env state)) [''cmake'', n]))"
proof -
  have 1: "\<exists>e. configure_package_config_file ext interp state args kw w = (Inl e, interp, w)"
    by (simp add: cpcf_present [OF assms] split: option.split sum.split)
  have 2: "\<forall>v0 f name. args = [] \<and> kw ''input'' = Some v0 \<and> input_file ext state w v0 = Inr f
             \<and> kw ''name'' = Some name \<longrightarrow>
            configure_package_config_file ext interp state args kw w =
              (Inl (UnboundLocalError ''install_dir''), interp, w)"
    by (simp add: cpcf_present [OF assms])
  have d: "''install_dir'' \<in> dom (kw(''install_dir'' \<mapsto> v))" by simp
  have 3: "configure_package_config_file ext interp state args (kw(''install_dir'' \<mapsto> v)) w =
           configure_package_config_file ext interp state args kw w"
    by (simp add: cpcf_present [OF assms] cpcf_present [OF d]
        cong: option.case_cong sum.case_cong)
  have 5: "\<forall>kw' d. install_dir_assigned (env state) kw' name' = Inr (Some d) \<longrightarrow>
             ''install_dir'' \<notin> dom kw'
             \<and> (\<exists>n. name' = PStr n \<and> d = join (opt_libdir (env state)) [''cmake'', n])"
    using install_dir_assigned_Some by blast
  show ?thesis
    using 1 2 3 5 install_dir_assigned_present [OF assms] by simp
qed

lemma kwargs_dir_present: "''install_dir'' \<in> dom (kwargs_dir v)"
  by (simp add: kwargs_dir_def)

lemma kwargs_dir_input:
  "input_file ext0 state0 world0 (PStr ''FooConfig.cmake.in'') =
     Inr \<lparr> is_built = False, subdir = [], fname = ''FooConfig.cmake.in'' \<rparr>"
  by code_simp

theorem install_dir_unbound_witness:
  "''install_dir'' \<in> dom (kwargs_dir (PStr ''lib/cmake/Foo''))
   \<and> configure_package_config_file ext0 interp0 state0 [] (kwargs_dir (PStr ''lib/cmake/Foo'')) world0 =
       (Inl (UnboundLocalError ''install_dir''), interp0, world0)
   \<and> configure_package_config_file ext0 interp0 state0 []
        ((kwargs_dir (PStr ''lib/cmake/Foo''))(''install_dir'' \<mapsto> PInt 5)) world0 =
       configure_package_config_file ext0 interp0 state0 [] (kwargs_dir (PStr ''lib/cmake/Foo'')) world0"
proof -
  have k: "kwargs_dir (PStr ''lib/cmake/Foo'') ''input'' = Some (PStr ''FooConfig.cmake.in'')
        \<and> kwargs_dir (PStr ''lib/cmake/Foo'') ''name'' = Some (PStr ''Foo'')"
    by (simp add: kwargs_dir_def kwargs0_def)
  show ?thesis
    using install_dir_unbound [where kw = "kwargs_dir (PStr ''lib/cmake/Foo'')" and ext = ext0
        and interp = interp0 and state = state0 and args = "[]" and w = world0 and v = "PInt 5"]
      kwargs_dir_present k kwargs_dir_input
    by simp
qed

text \<open>
  The claim's "for every call" fails where an earlier check raises first: a call with
  \<^verbatim>\<open>install_dir\<close> and no \<^verbatim>\<open>input\<close> raises the MesonException of line 226, not an
  UnboundLocalError.
\<close>

theorem install_dir_unbound_counterexample:
  "''install_dir'' \<in> dom [''install_dir'' \<mapsto> PStr ''lib/cmake/Foo'']
   \<and> configure_package_config_file ext0 interp0 state0 []
        [''install_dir'' \<mapsto> PStr ''lib/cmake/Foo''] world0 =
       (Inl (MesonException ''configure_package_config_file requires \"input\" keyword.''),
        interp0, world0)"
  by (simp add: configure_package_config_file_def)

section \<open>The write through a temporary file\<close>

lemma tmp_neq: "outfile @ ''~'' \<noteq> outfile"
  by (metis append_self_conv list.distinct(1))

lemma append_file_other: "p' \<noteq> p \<Longrightarrow> files (append_file w p s) p' = files w p'"
  by (simp add: append_file_def split: option.splits)

lemma append_file_same:
  "files w p = Some f \<Longrightarrow> files (append_file w p s) p = Some (f\<lparr>content := content f @ s\<rparr>)"
  by (simp add: append_file_def)

lemma write_states_other:
  "p' \<noteq> p \<Longrightarrow> s \<in> set (write_states w p ls) \<Longrightarrow> files s p' = files w p'"
  by (induction ls arbitrary: w) (auto simp: append_file_other)

lemma write_states_last:
  "files w p = Some f \<Longrightarrow>
     files (last (w # write_states w p ls)) p = Some (f\<lparr>content := content f @ concat ls\<rparr>)"
proof (induction ls arbitrary: w f)
  case Nil
  then show ?case by simp
next
  case (Cons l ls)
  from Cons.IH [OF append_file_same [OF Cons.prems, of l]]
  show ?case by simp
qed

lemma write_states_last_other:
  "p' \<noteq> p \<Longrightarrow> files (last (w # write_states w p ls)) p' = files w p'"
  by (induction ls arbitrary: w) (auto simp: append_file_other)

lemma open_w_other: "open_w w p = Inr w1 \<Longrightarrow> p' \<noteq> p \<Longrightarrow> files w1 p' = files w p'"
  by (auto simp: open_w_def split: if_splits)

lemma open_w_same:
  "open_w w p = Inr w1 \<Longrightarrow>
     files w1 p = Some \<lparr>content = [], mode = (case files w p of None \<Rightarrow> new_mode w | Some f \<Rightarrow> mode f)\<rparr>"
  by (auto simp: open_w_def split: if_splits)

lemma copymode_other: "copymode w src dst = Inr w3 \<Longrightarrow> p' \<noteq> dst \<Longrightarrow> files w3 p' = files w p'"
  by (auto simp: copymode_def split: option.splits)

lemma copymode_same:
  "copymode w src dst = Inr w3 \<Longrightarrow>
     \<exists>f g. files w src = Some f \<and> files w dst = Some g \<and> files w3 dst = Some (g\<lparr>mode := mode f\<rparr>)"
  by (auto simp: copymode_def split: option.splits)



lemma run_shape:
  assumes "files w infile = Some f"
  shows "(\<exists>e. create_package_file_run infile outfile rel extra conf w = (Some e, [])
              \<and> open_w w (outfile @ ''~'') = Inl e)
       \<or> (\<exists>w1 w3. open_w w (outfile @ ''~'') = Inr w1
              \<and> copymode (last (w1 # write_states w1 (outfile @ ''~'')
                     (map (render_line (package_init infile rel extra) conf)
                        (readlines (universal_newlines (content f))))))
                   infile (outfile @ ''~'') = Inr w3
              \<and> create_package_file_run infile outfile rel extra conf w =
                  (None, (w1 # write_states w1 (outfile @ ''~'')
                     (map (render_line (package_init infile rel extra) conf)
                        (readlines (universal_newlines (content f)))))
                    @ [w3, replace_if_different outfile (outfile @ ''~'') w3]))
       \<or> (\<exists>w1 e. open_w w (outfile @ ''~'') = Inr w1
              \<and> copymode (last (w1 # write_states w1 (outfile @ ''~'')
                     (map (render_line (package_init infile rel extra) conf)
                        (readlines (universal_newlines (content f))))))
                   infile (outfile @ ''~'') = Inl e
              \<and> create_package_file_run infile outfile rel extra conf w =
                  (Some e, w1 # write_states w1 (outfile @ ''~'')
                     (map (render_line (package_init infile rel extra) conf)
                        (readlines (universal_newlines (content f))))))"
  using assms
  by (auto simp: create_package_file_run_def read_lines_def Let_def split: sum.splits)

lemma run_cases:
  assumes "files w infile = Some f"
  obtains
    (closed) e where "create_package_file_run infile outfile rel extra conf w = (Some e, [])"
  | (finished) w1 w3 where "open_w w (outfile @ ''~'') = Inr w1"
      "copymode (last (w1 # write_states w1 (outfile @ ''~'')
                     (map (render_line (package_init infile rel extra) conf)
                        (readlines (universal_newlines (content f))))))
                   infile (outfile @ ''~'') = Inr w3"
      "create_package_file_run infile outfile rel extra conf w =
                  (None, (w1 # write_states w1 (outfile @ ''~'')
                     (map (render_line (package_init infile rel extra) conf)
                        (readlines (universal_newlines (content f)))))
                    @ [w3, replace_if_different outfile (outfile @ ''~'') w3])"
  | (stuck) w1 e where "open_w w (outfile @ ''~'') = Inr w1"
      "copymode (last (w1 # write_states w1 (outfile @ ''~'')
                     (map (render_line (package_init infile rel extra) conf)
                        (readlines (universal_newlines (content f))))))
                   infile (outfile @ ''~'') = Inl e"
      "create_package_file_run infile outfile rel extra conf w =
                  (Some e, w1 # write_states w1 (outfile @ ''~'')
                     (map (render_line (package_init infile rel extra) conf)
                        (readlines (universal_newlines (content f)))))"
  using run_shape [OF assms] by blast

lemma written_states_keep:
  assumes "open_w w (outfile @ ''~'') = Inr w1"
    and "s \<in> set (w1 # write_states w1 (outfile @ ''~'') ls)"
  shows "files s outfile = files w outfile"
  using assms open_w_other [OF assms(1), of outfile] write_states_other [of outfile "outfile @ ''~''" s w1 ls]
    tmp_neq [of outfile]
  by auto

lemma temporary_is_full:
  assumes "files w infile = Some f"
    and "open_w w (outfile @ ''~'') = Inr w1"
    and "copymode (last (w1 # write_states w1 (outfile @ ''~'') ls)) infile (outfile @ ''~'') = Inr w3"
  shows "files w3 (outfile @ ''~'') = Some \<lparr>content = concat ls, mode = mode f\<rparr>"
proof -
  let ?tmp = "outfile @ ''~''"
  let ?w2 = "last (w1 # write_states w1 ?tmp ls)"
  let ?m = "(case files w ?tmp of None \<Rightarrow> new_mode w | Some f \<Rightarrow> mode f)"
  have t1: "files w1 ?tmp = Some \<lparr>content = [], mode = ?m\<rparr>"
    using open_w_same [OF assms(2)] .
  have t2: "files ?w2 ?tmp = Some \<lparr>content = concat ls, mode = ?m\<rparr>"
    using write_states_last [OF t1, of ls] by simp
  from copymode_same [OF assms(3)] obtain f' g where
    c: "files ?w2 infile = Some f'" "files ?w2 ?tmp = Some g"
       "files w3 ?tmp = Some (g\<lparr>mode := mode f'\<rparr>)"
    by blast
  have m: "mode f' = mode f"
  proof (cases "infile = ?tmp")
    case True
    then show ?thesis using c(1) t2 assms(1) by simp
  next
    case False
    have "files ?w2 infile = files w1 infile"
      using write_states_last_other [of infile ?tmp w1 ls] False by simp
    also have "\<dots> = files w infile"
      using open_w_other [OF assms(2), of infile] False by simp
    finally show ?thesis using c(1) assms(1) by simp
  qed
  show ?thesis using c(2,3) t2 m by simp
qed

text \<open>
  C3. With a template that can be read, \<open>create_package_file\<close> goes through these
  worlds and no others: the temporary file \<^verbatim>\<open>outfile~\<close> opened, then after each line
  written to it, then with the template's mode copied onto it, then with the
  destination replaced by it. In every one of them the destination is what it was
  before the call or holds the full rendered content with the template's mode; up to
  the replacement it is what it was before, and the temporary file is complete, content
  and mode, when the replacement happens. A run that ends in an exception leaves the
  destination as it was.
\<close>

theorem no_partial_destination:
  assumes "files w infile = Some f"
  shows "(\<forall>s \<in> set (snd (create_package_file_run infile outfile rel extra conf w)).
            files s outfile = files w outfile
            \<or> files s outfile = Some \<lparr>content = rendered infile rel extra conf f, mode = mode f\<rparr>)
       \<and> (fst (create_package_file_run infile outfile rel extra conf w) = None \<longrightarrow>
            (\<exists>ws w3. snd (create_package_file_run infile outfile rel extra conf w) =
                        ws @ [w3, replace_if_different outfile (outfile @ ''~'') w3]
               \<and> (\<forall>s \<in> set (ws @ [w3]). files s outfile = files w outfile)
               \<and> files w3 (outfile @ ''~'') =
                   Some \<lparr>content = rendered infile rel extra conf f, mode = mode f\<rparr>)
            \<and> files (snd (create_package_file infile outfile rel extra conf w)) outfile =
                Some \<lparr>content = rendered infile rel extra conf f, mode = mode f\<rparr>)
       \<and> (fst (create_package_file_run infile outfile rel extra conf w) \<noteq> None \<longrightarrow>
            files (snd (create_package_file infile outfile rel extra conf w)) outfile =
              files w outfile)"
using assms
proof (cases rule: run_cases [where outfile = outfile and rel = rel and extra = extra and conf = conf])
  case (closed e)
  then show ?thesis by (simp add: create_package_file_def)
next
  case (stuck w1 e)
  let ?ls = "map (render_line (package_init infile rel extra) conf)
               (readlines (universal_newlines (content f)))"
  have k: "\<And>s. s \<in> set (w1 # write_states w1 (outfile @ ''~'') ?ls) \<Longrightarrow>
             files s outfile = files w outfile"
    using written_states_keep [OF stuck(1)] by blast
  have l: "files (last (w1 # write_states w1 (outfile @ ''~'') ?ls)) outfile = files w outfile"
    using k [OF last_in_set] by simp
  show ?thesis
    using stuck(3) k l by (simp add: create_package_file_def)
next
  case (finished w1 w3)
  let ?tmp = "outfile @ ''~''"
  let ?ls = "map (render_line (package_init infile rel extra) conf)
               (readlines (universal_newlines (content f)))"
  let ?full = "\<lparr>content = rendered infile rel extra conf f, mode = mode f\<rparr>"
  have k: "\<And>s. s \<in> set (w1 # write_states w1 ?tmp ?ls) \<Longrightarrow> files s outfile = files w outfile"
    using written_states_keep [OF finished(1)] by blast
  have t: "files w3 ?tmp = Some ?full"
    using temporary_is_full [OF assms finished(1) finished(2)] by (simp add: rendered_def)
  have k3: "files w3 outfile = files w outfile"
    using copymode_other [OF finished(2), of outfile] k [OF last_in_set] tmp_neq [of outfile]
    by simp
  have r: "files (replace_if_different outfile ?tmp w3) outfile = Some ?full"
    using t tmp_neq [of outfile] by (simp add: replace_if_different_def)
  have a: "\<forall>s \<in> set ((w1 # write_states w1 ?tmp ?ls) @ [w3]). files s outfile = files w outfile"
    using k k3 by auto
  have b: "\<forall>s \<in> set (snd (create_package_file_run infile outfile rel extra conf w)).
            files s outfile = files w outfile \<or> files s outfile = Some ?full"
    using a r finished(3) by auto
  have c: "files (snd (create_package_file infile outfile rel extra conf w)) outfile = Some ?full"
    using r finished(3) by (simp add: create_package_file_def)
  have d: "\<exists>ws w3'. snd (create_package_file_run infile outfile rel extra conf w) =
                        ws @ [w3', replace_if_different outfile ?tmp w3']
               \<and> (\<forall>s \<in> set (ws @ [w3']). files s outfile = files w outfile)
               \<and> files w3' ?tmp = Some ?full"
    using a t finished(3) by (intro exI [of _ "w1 # write_states w1 ?tmp ?ls"] exI [of _ w3]) simp
  show ?thesis using b c d finished(3) by simp
qed


lemma world0_template:
  "files world0 ''/src/FooConfig.cmake.in'' =
     Some \<lparr>content = ''# config\<newline>set(FOO_VERSION @foo@)\<newline>'', mode = 420\<rparr>"
  by (simp add: world0_def)

lemma world0_run:
  "fst (create_package_file_run ''/src/FooConfig.cmake.in'' ''/build/FooConfig.cmake''
          ''../../..'' [] (conf_values conf_foo) world0) = None
   \<and> length (snd (create_package_file_run ''/src/FooConfig.cmake.in'' ''/build/FooConfig.cmake''
          ''../../..'' [] (conf_values conf_foo) world0)) = 5
   \<and> files world0 ''/build/FooConfig.cmake'' = None
   \<and> rendered ''/src/FooConfig.cmake.in'' ''../../..'' [] (conf_values conf_foo)
        \<lparr>content = ''# config\<newline>set(FOO_VERSION @foo@)\<newline>'', mode = 420\<rparr> =
       ''# config\<newline>set(FOO_VERSION 1.2.3)\<newline>''"
  by code_simp

theorem no_partial_destination_witness:
  "files world0 ''/src/FooConfig.cmake.in'' =
     Some \<lparr>content = ''# config\<newline>set(FOO_VERSION @foo@)\<newline>'', mode = 420\<rparr>
   \<and> fst (create_package_file_run ''/src/FooConfig.cmake.in'' ''/build/FooConfig.cmake''
          ''../../..'' [] (conf_values conf_foo) world0) = None
   \<and> length (snd (create_package_file_run ''/src/FooConfig.cmake.in'' ''/build/FooConfig.cmake''
          ''../../..'' [] (conf_values conf_foo) world0)) = 5
   \<and> files world0 ''/build/FooConfig.cmake'' = None
   \<and> files (snd (create_package_file ''/src/FooConfig.cmake.in'' ''/build/FooConfig.cmake''
          ''../../..'' [] (conf_values conf_foo) world0)) ''/build/FooConfig.cmake'' =
       Some \<lparr>content = ''# config\<newline>set(FOO_VERSION 1.2.3)\<newline>'', mode = 420\<rparr>"
  using no_partial_destination [where w = world0 and infile = "''/src/FooConfig.cmake.in''"
      and outfile = "''/build/FooConfig.cmake''" and rel = "''../../..''" and extra = "[]"
      and conf = "conf_values conf_foo"
      and f = "\<lparr>content = ''# config\<newline>set(FOO_VERSION @foo@)\<newline>'', mode = 420\<rparr>"]
    world0_template world0_run
  by simp

section \<open>What the placeholder pattern matches\<close>

declare rmatch.simps(8) [simp del]

lemma rmatch_Plus_unfold:
  "rmatch (Plus r) s =
     concat (map (\<lambda>n. (if 0 < n \<and> n \<le> length s
                         then map (\<lambda>m. n + m) (rmatch (Plus r) (drop n s)) else []) @ [n])
                 (rmatch r s))"
  by (rule rmatch.simps(8))

lemma rmatch_Plus_empty: "rmatch r s = [] \<Longrightarrow> rmatch (Plus r) s = []"
  by (subst rmatch_Plus_unfold) simp

lemma rmatch_Plus_one:
  "rmatch r s = [n] \<Longrightarrow> 0 < n \<Longrightarrow> n \<le> length s \<Longrightarrow>
     rmatch (Plus r) s = map (\<lambda>m. n + m) (rmatch (Plus r) (drop n s)) @ [n]"
  by (subst rmatch_Plus_unfold) simp

text \<open>
  The head of what a sequence or an alternative matches, from the heads of what its
  parts match.
\<close>

lemma rmatch_Seq_head:
  assumes "rmatch r1 s = n # t" "rmatch r2 (drop n s) = m # t'"
  shows "\<exists>u. rmatch (Seq r1 r2) s = (n + m) # u"
  using assms by simp

lemma rmatch_Seq_none: "rmatch r1 s = [] \<Longrightarrow> rmatch (Seq r1 r2) s = []"
  by simp

lemma rmatch_Alt_head: "rmatch r1 s = n # t \<Longrightarrow> \<exists>u. rmatch (Alt r1 r2) s = n # u"
  by simp

lemma rmatch_Alt_skip: "rmatch r1 s = [] \<Longrightarrow> rmatch (Alt r1 r2) s = rmatch r2 s"
  by simp

lemma re_match_head: "rmatch r s = n # t \<Longrightarrow> re_match r s = Some n"
  by (simp add: re_match_def)

lemma not_name_at: "\<not> name_char CHR ''@''"
  by (simp add: name_char_def)


text \<open>Nothing matches at a character that is neither a backslash nor an \<^verbatim>\<open>@\<close>.\<close>

lemma no_match_plain:
  assumes "c \<noteq> CHR 0x5C" "c \<noteq> CHR ''@''"
  shows "re_match placeholder_regex (c # cs) = None"
proof -
  let ?bs = "Chr (CHR 0x5C)" and ?at = "Chr (CHR ''@'')"
  have p: "rmatch (Plus (Seq ?bs ?bs)) (c # cs) = []"
    using assms by (intro rmatch_Plus_empty) simp
  have a1: "rmatch (Seq (Plus (Seq ?bs ?bs)) (Ahead (Seq (Opt ?bs) ?at))) (c # cs) = []"
    using p by (rule rmatch_Seq_none)
  have a2: "rmatch (Seq ?bs ?at) (c # cs) = []"
    using assms by simp
  have a3: "rmatch (Seq ?at (Seq (Plus (Cls name_char)) ?at)) (c # cs) = []"
    using assms by (intro rmatch_Seq_none) simp
  have "rmatch placeholder_regex (c # cs) = []"
    unfolding placeholder_regex_def
    by (simp only: rmatch_Alt_skip [OF a1] rmatch_Alt_skip [OF a2] a3)
  then show ?thesis by (simp add: re_match_def)
qed

lemma no_match_empty: "re_match placeholder_regex [] = None"
proof -
  let ?bs = "Chr (CHR 0x5C)" and ?at = "Chr (CHR ''@'')"
  have p: "rmatch (Plus (Seq ?bs ?bs)) [] = []"
    by (intro rmatch_Plus_empty) simp
  have a1: "rmatch (Seq (Plus (Seq ?bs ?bs)) (Ahead (Seq (Opt ?bs) ?at))) [] = []"
    using p by (rule rmatch_Seq_none)
  have a2: "rmatch (Seq ?bs ?at) [] = []"
    by simp
  have a3: "rmatch (Seq ?at (Seq (Plus (Cls name_char)) ?at)) [] = []"
    by (intro rmatch_Seq_none) simp
  have "rmatch placeholder_regex [] = []"
    unfolding placeholder_regex_def
    by (simp only: rmatch_Alt_skip [OF a1] rmatch_Alt_skip [OF a2] a3)
  then show ?thesis by (simp add: re_match_def)
qed

text \<open>A lone escaped \<^verbatim>\<open>@\<close>.\<close>

lemma match_escaped_at:
  "re_match placeholder_regex (CHR 0x5C # CHR ''@'' # cs) = Some 2"
proof -
  let ?s = "CHR 0x5C # CHR ''@'' # cs"
  let ?bs = "Chr (CHR 0x5C)" and ?at = "Chr (CHR ''@'')"
  have p: "rmatch (Plus (Seq ?bs ?bs)) ?s = []"
    by (intro rmatch_Plus_empty) simp
  have a1: "rmatch (Seq (Plus (Seq ?bs ?bs)) (Ahead (Seq (Opt ?bs) ?at))) ?s = []"
    using p by (rule rmatch_Seq_none)
  have a2: "rmatch (Seq ?bs ?at) ?s = [2]"
    by simp
  have "rmatch placeholder_regex ?s =
          rmatch (Alt (Seq ?bs ?at) (Seq ?at (Seq (Plus (Cls name_char)) ?at))) ?s"
    unfolding placeholder_regex_def by (rule rmatch_Alt_skip [OF a1])
  then obtain u where "rmatch placeholder_regex ?s = 2 # u"
    using rmatch_Alt_head [OF a2] by auto
  then show ?thesis by (rule re_match_head)
qed

text \<open>
  The greedy run of name characters: what is tried first is the whole run.
\<close>

lemma rmatch_Plus_none:
  "r = [] \<or> \<not> p (hd r) \<Longrightarrow> rmatch (Plus (Cls p)) r = []"
  by (cases r) (auto intro: rmatch_Plus_empty)

lemma rmatch_Plus_class:
  assumes "list_all p name" "name \<noteq> []" "r = [] \<or> \<not> p (hd r)"
  shows "\<exists>t. rmatch (Plus (Cls p)) (name @ r) = length name # t"
  using assms
proof (induction name)
  case Nil
  then show ?case by simp
next
  case (Cons c name)
  have "rmatch (Cls p) ((c # name) @ r) = [1]"
    using Cons.prems(1) by simp
  then have u: "rmatch (Plus (Cls p)) ((c # name) @ r) =
          map (\<lambda>m. 1 + m) (rmatch (Plus (Cls p)) (name @ r)) @ [1]"
    using rmatch_Plus_one [of "Cls p" "(c # name) @ r" 1] by simp
  show ?case
  proof (cases "name = []")
    case True
    then show ?thesis using u rmatch_Plus_none [of r p] Cons.prems(3) by simp
  next
    case False
    then obtain t where "rmatch (Plus (Cls p)) (name @ r) = length name # t"
      using Cons by auto
    then show ?thesis using u by simp
  qed
qed

text \<open>A well-formed token.\<close>

lemma match_token:
  assumes "list_all name_char name" "name \<noteq> []"
  shows "re_match placeholder_regex (CHR ''@'' # name @ CHR ''@'' # cs) = Some (length name + 2)"
proof -
  let ?s = "CHR ''@'' # name @ CHR ''@'' # cs"
  let ?bs = "Chr (CHR 0x5C)" and ?at = "Chr (CHR ''@'')"
  obtain t where t: "rmatch (Plus (Cls name_char)) (name @ CHR ''@'' # cs) = length name # t"
    using rmatch_Plus_class [OF assms, of "CHR ''@'' # cs"] not_name_at by auto
  have c: "rmatch ?at (drop (length name) (name @ CHR ''@'' # cs)) = [1]"
    by simp
  obtain u where u: "rmatch (Seq (Plus (Cls name_char)) ?at) (name @ CHR ''@'' # cs) =
                       (length name + 1) # u"
    using rmatch_Seq_head [OF t c] by blast
  have h: "rmatch ?at ?s = [1]" by simp
  have u': "rmatch (Seq (Plus (Cls name_char)) ?at) (drop 1 ?s) = (length name + 1) # u"
    using u by simp
  obtain v where v: "rmatch (Seq ?at (Seq (Plus (Cls name_char)) ?at)) ?s =
                       (1 + (length name + 1)) # v"
    using rmatch_Seq_head [OF h u'] by blast
  have p: "rmatch (Plus (Seq ?bs ?bs)) ?s = []"
    by (intro rmatch_Plus_empty) simp
  have a1: "rmatch (Seq (Plus (Seq ?bs ?bs)) (Ahead (Seq (Opt ?bs) ?at))) ?s = []"
    using p by (rule rmatch_Seq_none)
  have a2: "rmatch (Seq ?bs ?at) ?s = []"
    by simp
  have "rmatch placeholder_regex ?s = (1 + (length name + 1)) # v"
    unfolding placeholder_regex_def
    by (simp only: rmatch_Alt_skip [OF a1] rmatch_Alt_skip [OF a2] v)
  then have "re_match placeholder_regex ?s = Some (1 + (length name + 1))"
    by (rule re_match_head)
  then show ?thesis by simp
qed




section \<open>The scan of a line\<close>

declare scan.simps [simp del]

lemma scan_plain:
  "c \<noteq> CHR 0x5C \<Longrightarrow> c \<noteq> CHR ''@'' \<Longrightarrow>
     scan placeholder_regex (c # cs) = Lit c # scan placeholder_regex cs"
  by (simp add: scan.simps no_match_plain)

lemma scan_clean:
  "clean xs \<Longrightarrow> scan placeholder_regex (xs @ ys) = map Lit xs @ scan placeholder_regex ys"
  by (induction xs) (auto simp: clean_def scan_plain)

lemma scan_empty: "scan placeholder_regex [] = []"
  by (simp add: scan.simps no_match_empty)

lemma scan_escaped_at:
  "scan placeholder_regex (CHR 0x5C # CHR ''@'' # cs) =
     Match [CHR 0x5C, CHR ''@''] # scan placeholder_regex cs"
  by (simp add: scan.simps match_escaped_at)

lemma scan_token:
  assumes "valid_name name"
  shows "scan placeholder_regex (CHR ''@'' # name @ CHR ''@'' # cs) =
           Match (CHR ''@'' # name @ ''@'') # scan placeholder_regex cs"
  using assms match_token [of name cs]
  by (simp add: scan.simps valid_name_def)


section \<open>Escapes and tokens, rendered\<close>


lemma kind_of_token:
  "valid_name name \<Longrightarrow> kind_of (CHR ''@'' # name @ ''@'') = Token name"
  by (simp add: kind_of_def)

lemma kind_of_escaped_at: "kind_of [CHR 0x5C, CHR ''@''] = EscapedAt"
  by (simp add: kind_of_def)


lemma do_replacement_scan:
  assumes "scan r s = ps @ scan r t"
  shows "do_replacement r s conf =
           (concat (map (\<lambda>p. case p of Lit c \<Rightarrow> [c] | Match m \<Rightarrow> variable_replace conf m) ps)
              @ fst (do_replacement r t conf),
            concat (map (missing_of conf) ps) @ snd (do_replacement r t conf))"
  using assms by (simp add: do_replacement_def re_sub_def)

lemma do_replacement_empty: "do_replacement placeholder_regex [] conf = ([], [])"
  by (simp add: do_replacement_def re_sub_def scan_empty)

lemma do_replacement_clean:
  assumes "clean xs"
  shows "do_replacement placeholder_regex (xs @ ys) conf =
           (xs @ fst (do_replacement placeholder_regex ys conf),
            snd (do_replacement placeholder_regex ys conf))"
proof -
  have 1: "concat (map (\<lambda>p. case p of Lit c \<Rightarrow> [c] | Match m \<Rightarrow> variable_replace conf m)
             (map Lit xs)) = xs"
    by (induction xs) auto
  have 2: "concat (map (missing_of conf) (map Lit xs)) = []"
    by (induction xs) (auto simp: missing_of_def)
  show ?thesis
    using do_replacement_scan [OF scan_clean [OF assms, of ys], of conf] 1 2 by simp
qed

lemma do_replacement_escaped_at:
  "do_replacement placeholder_regex (CHR 0x5C # CHR ''@'' # cs) conf =
     (CHR ''@'' # fst (do_replacement placeholder_regex cs conf),
      snd (do_replacement placeholder_regex cs conf))"
  using do_replacement_scan [of placeholder_regex "CHR 0x5C # CHR ''@'' # cs"
      "[Match [CHR 0x5C, CHR ''@'']]" cs conf]
  by (simp add: scan_escaped_at variable_replace_def missing_of_def kind_of_escaped_at)

lemma do_replacement_token:
  assumes "valid_name name"
  shows "do_replacement placeholder_regex (CHR ''@'' # name @ CHR ''@'' # cs) conf =
     ((case conf name of Some (var, desc) \<Rightarrow> var | None \<Rightarrow> CHR ''@'' # name @ ''@'')
        @ fst (do_replacement placeholder_regex cs conf),
      (if conf name = None then [name] else []) @ snd (do_replacement placeholder_regex cs conf))"
  using do_replacement_scan [of placeholder_regex "CHR ''@'' # name @ CHR ''@'' # cs"
      "[Match (CHR ''@'' # name @ ''@'')]" cs conf]
  by (simp add: scan_token [OF assms] variable_replace_def missing_of_def
      kind_of_token [OF assms])





lemma valid_foo: "valid_name ''foo''"
  by (simp add: valid_name_def name_char_def)


section \<open>Tokens without a value\<close>

lemma copymode_succeeds:
  "files w src \<noteq> None \<Longrightarrow> files w dst \<noteq> None \<Longrightarrow> \<exists>w3. copymode w src dst = Inr w3"
  by (auto simp: copymode_def)

lemma create_package_file_result:
  "fst (create_package_file infile outfile rel extra conf w) =
     (case read_lines w infile of
        Inl e \<Rightarrow> Some (MesonException (''Could not read input file '' @ infile @ '': '' @ e))
      | Inr data \<Rightarrow>
          (case open_w w (outfile @ ''~'') of Inl e \<Rightarrow> Some e | Inr w1 \<Rightarrow> None))"
proof (cases "files w infile")
  case None
  then show ?thesis
    by (simp add: create_package_file_def create_package_file_run_def read_lines_def)
next
  case (Some f)
  then have r: "read_lines w infile = Inr (readlines (universal_newlines (content f)))"
    by (simp add: read_lines_def)
  from Some show ?thesis
  proof (cases rule: run_cases [where outfile = outfile and rel = rel and extra = extra and conf = conf])
    case (closed e)
    then show ?thesis
      using r Some
      by (auto simp: create_package_file_def create_package_file_run_def Let_def
          split: sum.splits)
  next
    case (finished w1 w3)
    then show ?thesis using r by (simp add: create_package_file_def)
  next
    case (stuck w1 e)
    let ?ls = "map (render_line (package_init infile rel extra) conf)
                 (readlines (universal_newlines (content f)))"
    let ?tmp = "outfile @ ''~''"
    let ?w2 = "last (w1 # write_states w1 ?tmp ?ls)"
    obtain g where g: "files w1 ?tmp = Some g"
      using open_w_same [OF stuck(1)] by blast
    have t: "files ?w2 ?tmp \<noteq> None"
      using write_states_last [OF g, of ?ls] by simp
    have i: "files ?w2 infile \<noteq> None"
    proof (cases "infile = ?tmp")
      case True
      then show ?thesis using t by simp
    next
      case False
      then show ?thesis
        using write_states_last_other [of infile ?tmp w1 ?ls] open_w_other [OF stuck(1), of infile] Some
        by simp
    qed
    have "\<exists>w3. copymode ?w2 infile ?tmp = Inr w3"
      by (rule copymode_succeeds [OF i t])
    then have False
      using stuck(2) by simp
    then show ?thesis ..
  qed
qed


lemma missing_of_token:
  "confdata name = None \<Longrightarrow> missing_of confdata (Match (CHR ''@'' # name @ ''@'')) = [name]"
  by (simp add: missing_of_def kind_of_def)

lemma variable_replace_missing:
  "confdata name = None \<Longrightarrow>
     variable_replace confdata (CHR ''@'' # name @ ''@'') = CHR ''@'' # name @ ''@''"
  by (simp add: variable_replace_def kind_of_def)

text \<open>
  C1, as the code has it. In the scan of a line, a token \<^verbatim>\<open>@name@\<close> whose name is not
  in the mapping is rendered as itself, and the replacement of the line returns the
  name among the missing ones; after a clean text the token stands in the output where
  it stood in the line, and its name is the first reported. \<open>create_package_file\<close>
  keeps the rendered line only: what it returns, an exception or nothing, is the same
  for every mapping.
\<close>

theorem missing_token_verbatim:
  "(\<forall>p \<in> set (scan placeholder_regex line). \<forall>name.
       p = Match (CHR ''@'' # name @ ''@'') \<and> confdata name = None \<longrightarrow>
         variable_replace confdata (CHR ''@'' # name @ ''@'') = CHR ''@'' # name @ ''@''
         \<and> name \<in> set (snd (do_replacement placeholder_regex line confdata)))
   \<and> (clean pre \<and> valid_name name \<and> confdata name = None \<longrightarrow>
        do_replacement placeholder_regex (pre @ CHR ''@'' # name @ CHR ''@'' # post) confdata =
          (pre @ CHR ''@'' # name @ CHR ''@'' # fst (do_replacement placeholder_regex post confdata),
           name # snd (do_replacement placeholder_regex post confdata)))
   \<and> render_line pinit confdata line =
        fst (do_replacement placeholder_regex (str_replace line ''@PACKAGE_INIT@'' pinit) confdata)
   \<and> fst (create_package_file infile outfile rel extra confdata w) =
        fst (create_package_file infile outfile rel extra confdata' w)"
proof -
  have a: "\<forall>p \<in> set (scan placeholder_regex line). \<forall>name.
       p = Match (CHR ''@'' # name @ ''@'') \<and> confdata name = None \<longrightarrow>
         variable_replace confdata (CHR ''@'' # name @ ''@'') = CHR ''@'' # name @ ''@''
         \<and> name \<in> set (snd (do_replacement placeholder_regex line confdata))"
  proof (intro ballI allI impI)
    fix p name
    assume p: "p \<in> set (scan placeholder_regex line)"
      and h: "p = Match (CHR ''@'' # name @ ''@'') \<and> confdata name = None"
    have "name \<in> set (missing_of confdata p)"
      using h missing_of_token by simp
    then have "name \<in> set (snd (do_replacement placeholder_regex line confdata))"
      using p by (auto simp: do_replacement_def)
    then show "variable_replace confdata (CHR ''@'' # name @ ''@'') = CHR ''@'' # name @ ''@''
         \<and> name \<in> set (snd (do_replacement placeholder_regex line confdata))"
      using h variable_replace_missing by simp
  qed
  have b: "clean pre \<and> valid_name name \<and> confdata name = None \<longrightarrow>
        do_replacement placeholder_regex (pre @ CHR ''@'' # name @ CHR ''@'' # post) confdata =
          (pre @ CHR ''@'' # name @ CHR ''@'' # fst (do_replacement placeholder_regex post confdata),
           name # snd (do_replacement placeholder_regex post confdata))"
    by (simp add: do_replacement_clean do_replacement_token)
  show ?thesis
    using a b by (simp add: render_line_def create_package_file_result)
qed

lemma clean_set: "clean ''set(FOO_VERSION ''"
  by (simp add: clean_def)

theorem missing_token_verbatim_witness:
  "Match ''@foo@'' \<in> set (scan placeholder_regex ''set(FOO_VERSION @foo@)'')
   \<and> clean ''set(FOO_VERSION '' \<and> valid_name ''foo''
   \<and> do_replacement placeholder_regex ''set(FOO_VERSION @foo@)'' Map.empty =
        (''set(FOO_VERSION @foo@)'', [''foo''])
   \<and> ''foo'' \<in> set (snd (do_replacement placeholder_regex ''set(FOO_VERSION @foo@)'' Map.empty))"
proof -
  have s: "Match ''@foo@'' \<in> set (scan placeholder_regex ''set(FOO_VERSION @foo@)'')"
    by code_simp
  have d: "do_replacement placeholder_regex '')'' Map.empty = ('')'', [])"
    using do_replacement_clean [of "'')''" "[]" Map.empty]
    by (simp add: clean_def do_replacement_empty)
  show ?thesis
    using missing_token_verbatim [where line = "''set(FOO_VERSION @foo@)''" and confdata = Map.empty
        and pre = "''set(FOO_VERSION ''" and name = "''foo''" and post = "'')''"]
      s d clean_set valid_foo
    by auto
qed

text \<open>
  The claim's "reported to the caller in a missing-keys result" fails for the operation.
  The template of the small build has the token \<^verbatim>\<open>@foo@\<close>. Run with an empty mapping,
  where the scan of the line reports \<^verbatim>\<open>foo\<close> missing, and with a mapping that has
  \<^verbatim>\<open>foo\<close>, where nothing is missing, the operation returns the same \<^verbatim>\<open>Data\<close> and leaves
  the same interpreter: neither holds a missing-keys result.
\<close>

theorem missing_token_counterexample:
  "snd (do_replacement placeholder_regex ''set(FOO_VERSION @foo@)\<newline>'' (conf_values conf_empty))
     = [''foo'']
   \<and> snd (do_replacement placeholder_regex ''set(FOO_VERSION @foo@)\<newline>'' (conf_values conf_foo))
     = []
   \<and> map_sum id fst
        (fst (configure_package_config_file ext0 interp0 state0 [] (kwargs0 conf_empty) world0)) =
       Inr \<lparr> sources = [\<lparr> is_built = True, subdir = [], fname = ''FooConfig.cmake'' \<rparr>],
             install_dir = ''lib/cmake/Foo'' \<rparr>
   \<and> map_sum id fst
        (fst (configure_package_config_file ext0 interp0 state0 [] (kwargs0 conf_foo) world0)) =
       Inr \<lparr> sources = [\<lparr> is_built = True, subdir = [], fname = ''FooConfig.cmake'' \<rparr>],
             install_dir = ''lib/cmake/Foo'' \<rparr>
   \<and> fst (snd (configure_package_config_file ext0 interp0 state0 [] (kwargs0 conf_empty) world0)) =
       fst (snd (configure_package_config_file ext0 interp0 state0 [] (kwargs0 conf_foo) world0))
   \<and> map_option content
        (files (snd (snd (configure_package_config_file ext0 interp0 state0 []
                            (kwargs0 conf_empty) world0))) ''/build/FooConfig.cmake'') =
       Some ''# config\<newline>set(FOO_VERSION @foo@)\<newline>''"
  by code_simp

section \<open>The block behind PACKAGE_INIT\<close>

lemma str_replace_skip:
  "old \<noteq> [] \<Longrightarrow> hd old \<notin> set xs \<Longrightarrow>
     str_replace (xs @ ys) old new = xs @ str_replace ys old new"
  by (induction xs) (auto simp: prefix_def neq_Nil_conv)

lemma str_replace_hit:
  "old \<noteq> [] \<Longrightarrow> str_replace (old @ ys) old new = new @ str_replace ys old new"
  by (cases old) auto

lemma str_replace_none:
  "old \<noteq> [] \<Longrightarrow> hd old \<notin> set xs \<Longrightarrow> str_replace xs old new = xs"
  using str_replace_skip [of old xs "[]" new] by simp

lemma clean_no_at: "clean s \<Longrightarrow> CHR ''@'' \<notin> set s"
  by (auto simp: clean_def list_all_iff)

lemma base_parts:
  "PACKAGE_INIT_BASE =
     init_head @ [CHR 0x5C] @ ''@PACKAGE_INIT'' @ [CHR 0x5C] @ ''@'' @ init_by
     @ ''@inputFileName@'' @ init_mid @ ''@PACKAGE_RELATIVE_PATH@'' @ init_tail"
  by (simp add: PACKAGE_INIT_BASE_def init_head_def init_by_def init_mid_def init_tail_def)


lemma init_parts_clean:
  "clean init_head" "clean init_by" "clean init_mid" "clean init_tail"
  "clean PACKAGE_INIT_SET_AND_CHECK" "clean ''PACKAGE_INIT''"
  by (simp_all add: clean_def init_head_def init_by_def init_mid_def init_tail_def
      PACKAGE_INIT_SET_AND_CHECK_def)

lemma clean_append: "clean (xs @ ys) = (clean xs \<and> clean ys)"
  by (simp add: clean_def)

lemma prefix_other_head:
  "xs \<noteq> [] \<Longrightarrow> hd xs \<noteq> c \<Longrightarrow> \<not> prefix (c # cs) (xs @ ys)"
  by (cases xs) auto

lemma init_parts_heads:
  "init_by \<noteq> []" "hd init_by = CHR '' ''" "init_mid \<noteq> []" "hd init_mid = CHR '' ''"
  by (simp_all add: init_by_def init_mid_def)

lemma package_init_parts:
  assumes "CHR ''@'' \<notin> set rel"
  shows "package_init infile rel extra =
     init_head @ [CHR 0x5C] @ ''@PACKAGE_INIT'' @ [CHR 0x5C] @ ''@'' @ init_by
     @ infile @ init_mid @ rel @ init_tail @ extra @ PACKAGE_INIT_SET_AND_CHECK"
proof -
  have n: "CHR ''@'' \<notin> set init_head" "CHR ''@'' \<notin> set init_by"
    "CHR ''@'' \<notin> set init_mid" "CHR ''@'' \<notin> set init_tail"
    using init_parts_clean clean_no_at by blast+
  have 1: "str_replace PACKAGE_INIT_BASE ''@PACKAGE_RELATIVE_PATH@'' rel =
     init_head @ [CHR 0x5C] @ ''@PACKAGE_INIT'' @ [CHR 0x5C] @ ''@'' @ init_by
     @ ''@inputFileName@'' @ init_mid @ rel @ init_tail"
    by (simp add: base_parts str_replace_skip str_replace_none n prefix_other_head
        init_parts_heads)
  have 2: "str_replace (init_head @ [CHR 0x5C] @ ''@PACKAGE_INIT'' @ [CHR 0x5C] @ ''@'' @ init_by
     @ ''@inputFileName@'' @ init_mid @ rel @ init_tail) ''@inputFileName@'' infile =
     init_head @ [CHR 0x5C] @ ''@PACKAGE_INIT'' @ [CHR 0x5C] @ ''@'' @ init_by
     @ infile @ init_mid @ rel @ init_tail"
    by (simp add: str_replace_skip str_replace_none n assms prefix_other_head
        init_parts_heads)
  show ?thesis
    unfolding package_init_def 1 2 by simp
qed

lemma package_init_scanned:
  assumes "clean infile" "clean rel" "clean extra"
  shows "do_replacement placeholder_regex (package_init infile rel extra @ ys) confdata =
     (init_head @ ''@PACKAGE_INIT@'' @ init_by
        @ infile @ init_mid @ rel @ init_tail @ extra @ PACKAGE_INIT_SET_AND_CHECK
        @ fst (do_replacement placeholder_regex ys confdata),
      snd (do_replacement placeholder_regex ys confdata))"
proof -
  let ?rest = "init_by @ infile @ init_mid @ rel @ init_tail @ extra @ PACKAGE_INIT_SET_AND_CHECK"
  let ?out = "fst (do_replacement placeholder_regex ys confdata)"
  let ?miss = "snd (do_replacement placeholder_regex ys confdata)"
  have c: "clean ?rest"
    using assms init_parts_clean by (simp add: clean_append)
  have 1: "do_replacement placeholder_regex (?rest @ ys) confdata = (?rest @ ?out, ?miss)"
    using do_replacement_clean [OF c, of ys confdata] by simp
  have 2: "do_replacement placeholder_regex (CHR 0x5C # CHR ''@'' # ?rest @ ys) confdata =
             (CHR ''@'' # ?rest @ ?out, ?miss)"
    by (simp only: do_replacement_escaped_at 1 fst_conv snd_conv)
  have 3: "do_replacement placeholder_regex
             (''PACKAGE_INIT'' @ CHR 0x5C # CHR ''@'' # ?rest @ ys) confdata =
             (''PACKAGE_INIT'' @ CHR ''@'' # ?rest @ ?out, ?miss)"
    by (simp only: do_replacement_clean [OF init_parts_clean(6)] 2 fst_conv snd_conv)
  have 4: "do_replacement placeholder_regex
             (CHR 0x5C # CHR ''@'' # ''PACKAGE_INIT'' @ CHR 0x5C # CHR ''@'' # ?rest @ ys) confdata =
             (CHR ''@'' # ''PACKAGE_INIT'' @ CHR ''@'' # ?rest @ ?out, ?miss)"
    by (simp only: do_replacement_escaped_at 3 fst_conv snd_conv)
  have 5: "do_replacement placeholder_regex
             (init_head @ CHR 0x5C # CHR ''@'' # ''PACKAGE_INIT'' @ CHR 0x5C # CHR ''@'' # ?rest @ ys)
             confdata =
             (init_head @ CHR ''@'' # ''PACKAGE_INIT'' @ CHR ''@'' # ?rest @ ?out, ?miss)"
    by (simp only: do_replacement_clean [OF init_parts_clean(1)] 4 fst_conv snd_conv)
  have p: "package_init infile rel extra @ ys =
     init_head @ CHR 0x5C # CHR ''@'' # ''PACKAGE_INIT'' @ CHR 0x5C # CHR ''@'' # ?rest @ ys"
    using package_init_parts [OF clean_no_at [OF assms(2)], of infile extra] by simp
  show ?thesis
    unfolding p 5 by simp
qed

lemma ext_parts:
  "PACKAGE_INIT_EXT = ext_head @ ''@absInstallDir@'' @ ext_mid @ ''@installPrefix@'' @ ext_tail"
  by (simp add: PACKAGE_INIT_EXT_def ext_head_def ext_mid_def ext_tail_def)

lemma ext_parts_clean: "clean ext_head" "clean ext_mid" "clean ext_tail"
  by (simp_all add: clean_def ext_head_def ext_mid_def ext_tail_def)

lemma prefix_other_head_whole:
  "xs \<noteq> [] \<Longrightarrow> hd xs \<noteq> c \<Longrightarrow> \<not> prefix (c # cs) xs"
  by (cases xs) auto

lemma ext_parts_heads:
  "ext_tail \<noteq> []" "hd ext_tail = CHR 0x22" "ext_mid \<noteq> []" "hd ext_mid = CHR 0x22"
  by (simp_all add: ext_tail_def ext_mid_def)

lemma ext_replaced:
  assumes "CHR ''@'' \<notin> set d"
  shows "str_replace (str_replace PACKAGE_INIT_EXT ''@absInstallDir@'' d) ''@installPrefix@'' pfx =
           ext_head @ d @ ext_mid @ pfx @ ext_tail"
proof -
  have n: "CHR ''@'' \<notin> set ext_head" "CHR ''@'' \<notin> set ext_mid" "CHR ''@'' \<notin> set ext_tail"
    using ext_parts_clean clean_no_at by blast+
  have 1: "str_replace PACKAGE_INIT_EXT ''@absInstallDir@'' d =
             ext_head @ d @ ext_mid @ ''@installPrefix@'' @ ext_tail"
    by (simp add: ext_parts str_replace_skip str_replace_none n prefix_other_head
        prefix_other_head_whole ext_parts_heads)
  have 2: "str_replace (ext_head @ d @ ext_mid @ ''@installPrefix@'' @ ext_tail)
             ''@installPrefix@'' pfx = ext_head @ d @ ext_mid @ pfx @ ext_tail"
    by (simp add: str_replace_skip str_replace_none n assms)
  show ?thesis unfolding 1 2 ..
qed

lemma abs_install_dir_clean:
  "clean pfx \<Longrightarrow> clean dir \<Longrightarrow> clean (abs_install_dir pfx dir)"
  by (simp add: abs_install_dir_def join_def join2_def clean_append) (simp add: clean_def)

lemma extra_block_clean:
  assumes "clean pfx" "clean dir"
  shows "clean (extra_block pfx dir)"
  using assms ext_replaced [OF clean_no_at [OF abs_install_dir_clean [OF assms]], of pfx]
    ext_parts_clean abs_install_dir_clean [OF assms]
  by (simp add: extra_block_def clean_append) (simp add: clean_def)

lemma render_init_line:
  assumes "CHR ''@'' \<notin> set pre"
  shows "render_line pinit confdata (pre @ ''@PACKAGE_INIT@'' @ post) =
           fst (do_replacement placeholder_regex
                  (pre @ pinit @ str_replace post ''@PACKAGE_INIT@'' pinit) confdata)"
  using str_replace_skip [of "''@PACKAGE_INIT@''" pre "''@PACKAGE_INIT@'' @ post" pinit]
    str_replace_hit [of "''@PACKAGE_INIT@''" post pinit] assms
  by (simp add: render_line_def)


text \<open>
  C4, as the code has it. On every line the token \<^verbatim>\<open>@PACKAGE_INIT@\<close> is replaced by the
  block first, as text, and the generic scan then runs over the whole line, the block
  included. The block is written for that: its header holds the token with a backslash
  before each \<^verbatim>\<open>@\<close>, which the scan turns into \<^verbatim>\<open>@PACKAGE_INIT@\<close>. When the input file
  name, the relative path, the prefix and the install directory are clean, without
  \<^verbatim>\<open>@\<close> and backslash, the scan changes nothing else: the line \<^verbatim>\<open>@PACKAGE_INIT@\<close> is
  rendered as the block with these values as they are.
\<close>

theorem package_init_scanned_too:
  "(CHR ''@'' \<notin> set pre \<longrightarrow>
      render_line pinit confdata (pre @ ''@PACKAGE_INIT@'' @ post) =
        fst (do_replacement placeholder_regex
               (pre @ pinit @ str_replace post ''@PACKAGE_INIT@'' pinit) confdata))
   \<and> (clean infile \<and> clean rel \<and> clean pfx \<and> clean dir \<longrightarrow>
        package_init infile rel (extra_block pfx dir) =
          init_head @ [CHR 0x5C] @ ''@PACKAGE_INIT'' @ [CHR 0x5C] @ ''@'' @ init_by
          @ infile @ init_mid @ rel @ init_tail @ extra_block pfx dir
          @ PACKAGE_INIT_SET_AND_CHECK
        \<and> render_line (package_init infile rel (extra_block pfx dir)) confdata
              (''@PACKAGE_INIT@'' @ ''\<newline>'') =
          init_head @ ''@PACKAGE_INIT@'' @ init_by
          @ infile @ init_mid @ rel @ init_tail @ extra_block pfx dir
          @ PACKAGE_INIT_SET_AND_CHECK @ ''\<newline>''
        \<and> (re_match lib_regex (abs_install_dir pfx dir) \<noteq> None \<longrightarrow>
             extra_block pfx dir =
               ext_head @ abs_install_dir pfx dir @ ext_mid @ pfx @ ext_tail))"
proof -
  have a: "CHR ''@'' \<notin> set pre \<longrightarrow>
      render_line pinit confdata (pre @ ''@PACKAGE_INIT@'' @ post) =
        fst (do_replacement placeholder_regex
               (pre @ pinit @ str_replace post ''@PACKAGE_INIT@'' pinit) confdata)"
    using render_init_line by blast
  have b: "package_init infile rel (extra_block pfx dir) =
          init_head @ [CHR 0x5C] @ ''@PACKAGE_INIT'' @ [CHR 0x5C] @ ''@'' @ init_by
          @ infile @ init_mid @ rel @ init_tail @ extra_block pfx dir
          @ PACKAGE_INIT_SET_AND_CHECK
        \<and> render_line (package_init infile rel (extra_block pfx dir)) confdata
              (''@PACKAGE_INIT@'' @ ''\<newline>'') =
          init_head @ ''@PACKAGE_INIT@'' @ init_by
          @ infile @ init_mid @ rel @ init_tail @ extra_block pfx dir
          @ PACKAGE_INIT_SET_AND_CHECK @ ''\<newline>''
        \<and> (re_match lib_regex (abs_install_dir pfx dir) \<noteq> None \<longrightarrow>
             extra_block pfx dir =
               ext_head @ abs_install_dir pfx dir @ ext_mid @ pfx @ ext_tail)"
    if c: "clean infile" "clean rel" "clean pfx" "clean dir"
  proof -
    let ?pinit = "package_init infile rel (extra_block pfx dir)"
    have e: "clean (extra_block pfx dir)"
      using extra_block_clean [OF c(3,4)] .
    have 1: "?pinit =
          init_head @ [CHR 0x5C] @ ''@PACKAGE_INIT'' @ [CHR 0x5C] @ ''@'' @ init_by
          @ infile @ init_mid @ rel @ init_tail @ extra_block pfx dir
          @ PACKAGE_INIT_SET_AND_CHECK"
      using package_init_parts [OF clean_no_at [OF c(2)]] .
    have n: "do_replacement placeholder_regex ''\<newline>'' confdata = (''\<newline>'', [])"
      using do_replacement_clean [of "''\<newline>''" "[]" confdata]
      by (simp add: clean_def do_replacement_empty)
    have "render_line ?pinit confdata ([] @ ''@PACKAGE_INIT@'' @ ''\<newline>'') =
            fst (do_replacement placeholder_regex
                   ([] @ ?pinit @ str_replace ''\<newline>'' ''@PACKAGE_INIT@'' ?pinit) confdata)"
      by (rule render_init_line) simp
    then have 2: "render_line ?pinit confdata (''@PACKAGE_INIT@'' @ ''\<newline>'') =
            fst (do_replacement placeholder_regex (?pinit @ ''\<newline>'') confdata)"
      by simp
    have 3: "fst (do_replacement placeholder_regex (?pinit @ ''\<newline>'') confdata) =
          init_head @ ''@PACKAGE_INIT@'' @ init_by
          @ infile @ init_mid @ rel @ init_tail @ extra_block pfx dir
          @ PACKAGE_INIT_SET_AND_CHECK @ ''\<newline>''"
      unfolding package_init_scanned [OF c(1,2) e] n by simp
    have 4: "re_match lib_regex (abs_install_dir pfx dir) \<noteq> None \<longrightarrow>
             extra_block pfx dir =
               ext_head @ abs_install_dir pfx dir @ ext_mid @ pfx @ ext_tail"
      using ext_replaced [OF clean_no_at [OF abs_install_dir_clean [OF c(3,4)]], of pfx]
      by (simp add: extra_block_def)
    show ?thesis using 1 2 3 4 by simp
  qed
  show ?thesis using a b by blast
qed

lemma clean_examples:
  "clean ''/src/FooConfig.cmake.in''" "clean ''../../..''" "clean ''/usr''"
  "clean ''/usr/lib/cmake/Foo''"
  by (simp_all add: clean_def)

lemma usr_lib_matches: "re_match lib_regex (abs_install_dir ''/usr'' ''/usr/lib/cmake/Foo'') \<noteq> None"
  by code_simp

theorem package_init_scanned_too_witness:
  "clean ''/src/FooConfig.cmake.in'' \<and> clean ''../../..'' \<and> clean ''/usr''
   \<and> clean ''/usr/lib/cmake/Foo''
   \<and> re_match lib_regex (abs_install_dir ''/usr'' ''/usr/lib/cmake/Foo'') \<noteq> None
   \<and> render_line (package_init ''/src/FooConfig.cmake.in'' ''../../..''
                    (extra_block ''/usr'' ''/usr/lib/cmake/Foo'')) (conf_values conf_foo)
        (''@PACKAGE_INIT@'' @ ''\<newline>'') =
       init_head @ ''@PACKAGE_INIT@'' @ init_by
       @ ''/src/FooConfig.cmake.in'' @ init_mid @ ''../../..'' @ init_tail
       @ (ext_head @ abs_install_dir ''/usr'' ''/usr/lib/cmake/Foo'' @ ext_mid @ ''/usr'' @ ext_tail)
       @ PACKAGE_INIT_SET_AND_CHECK @ ''\<newline>''"
proof -
  let ?Y = "render_line (package_init ''/src/FooConfig.cmake.in'' ''../../..''
                    (extra_block ''/usr'' ''/usr/lib/cmake/Foo'')) (conf_values conf_foo)
        (''@PACKAGE_INIT@'' @ ''\<newline>'') =
       init_head @ ''@PACKAGE_INIT@'' @ init_by
       @ ''/src/FooConfig.cmake.in'' @ init_mid @ ''../../..'' @ init_tail
       @ extra_block ''/usr'' ''/usr/lib/cmake/Foo''
       @ PACKAGE_INIT_SET_AND_CHECK @ ''\<newline>''"
  let ?W = "extra_block ''/usr'' ''/usr/lib/cmake/Foo'' =
       ext_head @ abs_install_dir ''/usr'' ''/usr/lib/cmake/Foo'' @ ext_mid @ ''/usr'' @ ext_tail"
  have h: "clean ''/src/FooConfig.cmake.in'' \<and> clean ''../../..'' \<and> clean ''/usr''
           \<and> clean ''/usr/lib/cmake/Foo''"
    using clean_examples by simp
  have r: "?Y \<and> (re_match lib_regex (abs_install_dir ''/usr'' ''/usr/lib/cmake/Foo'') \<noteq> None
                 \<longrightarrow> ?W)"
    using mp [OF package_init_scanned_too [where infile = "''/src/FooConfig.cmake.in''"
          and rel = "''../../..''" and pfx = "''/usr''" and dir = "''/usr/lib/cmake/Foo''"
          and confdata = "conf_values conf_foo", THEN conjunct2] h]
    by (rule conjunct2)
  have w: ?W using r usr_lib_matches by (rule_tac mp [OF conjunct2]) 
  have y: ?Y using r by (rule conjunct1)
  show ?thesis
    using h usr_lib_matches y unfolding w [symmetric] by simp
qed

text \<open>
  The claim's "not subject to a second substitution pass by the generic scan" fails.
  With a template whose path holds \<^verbatim>\<open>@foo@\<close>, the line \<^verbatim>\<open>@PACKAGE_INIT@\<close> after the
  textual replacement is scanned as a whole: the scan finds the token \<^verbatim>\<open>@foo@\<close> inside
  the block, in the input file name, and the rendered line names the input file with
  the mapped value in place of the token.
\<close>

theorem package_init_counterexample:
  "package_init odd_infile ''../../..'' [] =
     init_head @ [CHR 0x5C] @ ''@PACKAGE_INIT'' @ [CHR 0x5C] @ ''@'' @ init_by
     @ ''/src/@foo@/FooConfig.cmake.in'' @ init_mid @ ''../../..'' @ init_tail
     @ PACKAGE_INIT_SET_AND_CHECK
   \<and> Match ''@foo@'' \<in> set (scan placeholder_regex (package_init odd_infile ''../../..'' []))
   \<and> render_line (package_init odd_infile ''../../..'' []) (conf_values conf_foo)
        (''@PACKAGE_INIT@'' @ ''\<newline>'') =
     init_head @ ''@PACKAGE_INIT@'' @ init_by
     @ ''/src/1.2.3/FooConfig.cmake.in'' @ init_mid @ ''../../..'' @ init_tail
     @ PACKAGE_INIT_SET_AND_CHECK @ ''\<newline>''"
proof -
  let ?conf = "conf_values conf_foo"
  let ?pinit = "package_init odd_infile ''../../..'' []"
  let ?after = "init_mid @ ''../../..'' @ init_tail @ PACKAGE_INIT_SET_AND_CHECK"
  let ?name = "''/FooConfig.cmake.in'' @ ?after"
  have p: "?pinit =
     init_head @ [CHR 0x5C] @ ''@PACKAGE_INIT'' @ [CHR 0x5C] @ ''@'' @ init_by
     @ ''/src/@foo@/FooConfig.cmake.in'' @ init_mid @ ''../../..'' @ init_tail
     @ PACKAGE_INIT_SET_AND_CHECK"
    using package_init_parts [of "''../../..''" odd_infile "[]"]
    by (simp add: odd_infile_def)
  have p': "?pinit @ ys =
     init_head @ CHR 0x5C # CHR ''@'' # ''PACKAGE_INIT'' @ CHR 0x5C # CHR ''@'' #
       (init_by @ ''/src/'') @ CHR ''@'' # ''foo'' @ CHR ''@'' # ?name @ ys" for ys
    unfolding p by simp
  have c1: "clean (init_by @ ''/src/'')"
    using init_parts_clean by (simp add: clean_append) (simp add: clean_def)
  have c2: "clean ?name"
    using init_parts_clean by (simp add: clean_append) (simp add: clean_def)
  have s: "scan placeholder_regex (?pinit @ []) =
      map Lit init_head @ Match [CHR 0x5C, CHR ''@''] # map Lit ''PACKAGE_INIT''
      @ Match [CHR 0x5C, CHR ''@''] # map Lit (init_by @ ''/src/'')
      @ Match ''@foo@'' # scan placeholder_regex (?name @ [])"
    unfolding p'
    by (simp only: scan_clean [OF init_parts_clean(1)] scan_escaped_at
        scan_clean [OF init_parts_clean(6)] scan_clean [OF c1] scan_token [OF valid_foo])
       simp
  have m: "Match ''@foo@'' \<in> set (scan placeholder_regex ?pinit)"
    using s by simp
  have n: "do_replacement placeholder_regex ''\<newline>'' ?conf = (''\<newline>'', [])"
    using do_replacement_clean [of "''\<newline>''" "[]" ?conf]
    by (simp add: clean_def do_replacement_empty)
  have 1: "do_replacement placeholder_regex (?name @ ''\<newline>'') ?conf = (?name @ ''\<newline>'', [])"
    using do_replacement_clean [OF c2, of "''\<newline>''" ?conf] n by simp
  have 2: "do_replacement placeholder_regex
             (CHR ''@'' # ''foo'' @ CHR ''@'' # ?name @ ''\<newline>'') ?conf =
             (''1.2.3'' @ ?name @ ''\<newline>'', [])"
    unfolding do_replacement_token [OF valid_foo] 1 by (simp add: conf_foo_def)
  have 3: "do_replacement placeholder_regex
             ((init_by @ ''/src/'') @ CHR ''@'' # ''foo'' @ CHR ''@'' # ?name @ ''\<newline>'') ?conf =
             ((init_by @ ''/src/'') @ ''1.2.3'' @ ?name @ ''\<newline>'', [])"
    by (simp only: do_replacement_clean [OF c1] 2 fst_conv snd_conv)
  have 4: "do_replacement placeholder_regex
             (CHR 0x5C # CHR ''@'' # (init_by @ ''/src/'') @ CHR ''@'' # ''foo'' @ CHR ''@'' #
                ?name @ ''\<newline>'') ?conf =
             (CHR ''@'' # (init_by @ ''/src/'') @ ''1.2.3'' @ ?name @ ''\<newline>'', [])"
    by (simp only: do_replacement_escaped_at 3 fst_conv snd_conv)
  have 5: "do_replacement placeholder_regex
             (''PACKAGE_INIT'' @ CHR 0x5C # CHR ''@'' # (init_by @ ''/src/'') @ CHR ''@'' #
                ''foo'' @ CHR ''@'' # ?name @ ''\<newline>'') ?conf =
             (''PACKAGE_INIT'' @ CHR ''@'' # (init_by @ ''/src/'') @ ''1.2.3'' @ ?name @ ''\<newline>'', [])"
    by (simp only: do_replacement_clean [OF init_parts_clean(6)] 4 fst_conv snd_conv)
  have 6: "do_replacement placeholder_regex
             (CHR 0x5C # CHR ''@'' # ''PACKAGE_INIT'' @ CHR 0x5C # CHR ''@'' #
                (init_by @ ''/src/'') @ CHR ''@'' # ''foo'' @ CHR ''@'' # ?name @ ''\<newline>'') ?conf =
             (CHR ''@'' # ''PACKAGE_INIT'' @ CHR ''@'' # (init_by @ ''/src/'') @ ''1.2.3'' @ ?name
                @ ''\<newline>'', [])"
    by (simp only: do_replacement_escaped_at 5 fst_conv snd_conv)
  have 7: "do_replacement placeholder_regex (?pinit @ ''\<newline>'') ?conf =
             (init_head @ CHR ''@'' # ''PACKAGE_INIT'' @ CHR ''@'' # (init_by @ ''/src/'')
                @ ''1.2.3'' @ ?name @ ''\<newline>'', [])"
    unfolding p'
    by (simp only: do_replacement_clean [OF init_parts_clean(1)] 6 fst_conv snd_conv)
  have "render_line ?pinit ?conf ([] @ ''@PACKAGE_INIT@'' @ ''\<newline>'') =
            fst (do_replacement placeholder_regex
                   ([] @ ?pinit @ str_replace ''\<newline>'' ''@PACKAGE_INIT@'' ?pinit) ?conf)"
    by (rule render_init_line) simp
  then have 8: "render_line ?pinit ?conf (''@PACKAGE_INIT@'' @ ''\<newline>'') =
            fst (do_replacement placeholder_regex (?pinit @ ''\<newline>'') ?conf)"
    by simp
  show ?thesis
    using p m 8 unfolding 7 by simp
qed

end
